theory Spec2Isabelle
  imports Main "HOL-Library.Word" "HOL-Library.AList"
begin

unbundle bit_operations_syntax

section \<open>Constants and OS structures\<close>

text \<open>
  The two entry points of the repository, \<^verbatim>\<open>monitor_manager.py\<close> (console) and
  \<^verbatim>\<open>main.py\<close> (system tray), declare the same constants, the same two \<^verbatim>\<open>ctypes\<close>
  structures and the same four display functions. They are embedded once.
\<close>

definition ENUM_CURRENT_SETTINGS :: int where "ENUM_CURRENT_SETTINGS = -1"
definition CDS_UPDATEREGISTRY :: "32 word" where "CDS_UPDATEREGISTRY = 0x01"
definition DISP_CHANGE_SUCCESSFUL :: int where "DISP_CHANGE_SUCCESSFUL = 0"
definition DM_PELSWIDTH :: "32 word" where "DM_PELSWIDTH = 0x80000"
definition DM_PELSHEIGHT :: "32 word" where "DM_PELSHEIGHT = 0x100000"
definition DM_DISPLAYORIENTATION :: "32 word" where "DM_DISPLAYORIENTATION = 0x00000080"
definition DM_POSITION :: "32 word" where "DM_POSITION = 0x00000020"

text \<open>
  \<^verbatim>\<open>class DEVMODE(ctypes.Structure)\<close>: \<^verbatim>\<open>c_ushort\<close> and \<^verbatim>\<open>c_short\<close> are 16 bits,
  \<^verbatim>\<open>c_ulong\<close> and \<^verbatim>\<open>c_long\<close> are 32 bits on Windows (a signed field is read
  with \<open>sint\<close>), a \<^verbatim>\<open>c_wchar\<close> array reads as a string.
\<close>

record DEVMODE =
  dmDeviceName :: string
  dmSpecVersion :: "16 word"
  dmDriverVersion :: "16 word"
  dmSize :: "16 word"
  dmDriverExtra :: "16 word"
  dmFields :: "32 word"
  dmPositionX :: "32 word"
  dmPositionY :: "32 word"
  dmDisplayOrientation :: "32 word"
  dmDisplayFixedOutput :: "32 word"
  dmColor :: "16 word"
  dmDuplex :: "16 word"
  dmYResolution :: "16 word"
  dmTTOption :: "16 word"
  dmCollate :: "16 word"
  dmFormName :: string
  dmLogPixels :: "16 word"
  dmBitsPerPel :: "32 word"
  dmPelsWidth :: "32 word"
  dmPelsHeight :: "32 word"
  dmDisplayFlags :: "32 word"
  dmDisplayFrequency :: "32 word"
  dmICMMethod :: "32 word"
  dmICMIntent :: "32 word"
  dmMediaType :: "32 word"
  dmDitherType :: "32 word"
  dmReserved1 :: "32 word"
  dmReserved2 :: "32 word"
  dmPanningWidth :: "32 word"
  dmPanningHeight :: "32 word"

text \<open>\<^verbatim>\<open>DEVMODE()\<close>: a ctypes structure is created with every field zero.\<close>

definition DEVMODE_new :: DEVMODE where
  "DEVMODE_new = \<lparr> dmDeviceName = [], dmSpecVersion = 0, dmDriverVersion = 0, dmSize = 0,
     dmDriverExtra = 0, dmFields = 0, dmPositionX = 0, dmPositionY = 0,
     dmDisplayOrientation = 0, dmDisplayFixedOutput = 0, dmColor = 0, dmDuplex = 0,
     dmYResolution = 0, dmTTOption = 0, dmCollate = 0, dmFormName = [], dmLogPixels = 0,
     dmBitsPerPel = 0, dmPelsWidth = 0, dmPelsHeight = 0, dmDisplayFlags = 0,
     dmDisplayFrequency = 0, dmICMMethod = 0, dmICMIntent = 0, dmMediaType = 0,
     dmDitherType = 0, dmReserved1 = 0, dmReserved2 = 0, dmPanningWidth = 0,
     dmPanningHeight = 0 \<rparr>"

text \<open>
  \<^verbatim>\<open>ctypes.sizeof(DEVMODE)\<close> with the field sizes above: 64 + 8 + 4 + 16 + 10 + 64 + 2 + 52.
\<close>

definition sizeof_DEVMODE :: "16 word" where "sizeof_DEVMODE = 220"

record DISPLAY_DEVICE =
  cb :: "32 word"
  DeviceName :: string
  DeviceString :: string
  StateFlags :: "32 word"
  DeviceID :: string
  DeviceKey :: string

text \<open>The dictionary that \<^verbatim>\<open>get_all_monitors\<close> builds for each display.\<close>

record monitor =
  index :: nat
  name :: string
  description :: string
  settings :: DEVMODE
  is_primary :: bool

section \<open>The OS boundary, the program state and the observable trace\<close>

text \<open>
  The operating system is an input of the model. An enumeration walks one display table:
  the devices that \<^verbatim>\<open>EnumDisplayDevicesW\<close> reports for the indices 0, 1, ... (the call
  returns zero at the first index past the table), each paired with what
  \<^verbatim>\<open>EnumDisplaySettingsW(DeviceName, ENUM_CURRENT_SETTINGS, ...)\<close> does for it:
  \<open>Some\<close> of the filled-in mode, or \<open>None\<close> when the call returns zero.

  \<open>display_table os k\<close> is the table that the k-th call of \<^verbatim>\<open>get_all_monitors\<close> of a
  run sees, and \<open>cds_result os k nm dm fl\<close> is the return code of the k-th call of
  \<^verbatim>\<open>ChangeDisplaySettingsExW\<close> of the run when its arguments are \<open>nm\<close>, \<open>dm\<close>, \<open>fl\<close>.
\<close>

type_synonym display_table = "(DISPLAY_DEVICE \<times> DEVMODE option) list"

record os =
  display_table :: "nat \<Rightarrow> display_table"
  cds_result :: "nat \<Rightarrow> string \<Rightarrow> DEVMODE \<Rightarrow> 32 word \<Rightarrow> int"

text \<open>
  The state that the program threads: the module-level dictionary \<^verbatim>\<open>monitor_settings\<close>
  (an association list: a Python dictionary keeps insertion order and replaces in place)
  and the number of enumerations and of mode-change calls made so far.
\<close>

record world =
  monitor_settings :: "(string \<times> DEVMODE) list"
  enum_calls :: nat
  cds_calls :: nat

text \<open>
  What a run does to the outside, in order: the mode-change calls with their arguments
  (device name, mode structure, \<^verbatim>\<open>dwflags\<close>; the window handle and \<^verbatim>\<open>lParam\<close> are always
  \<^verbatim>\<open>None\<close>), the sleeps (in milliseconds), the lines printed by the console variant and the
  \<^verbatim>\<open>status_changed\<close> signals emitted by the tray variant. A message is named after its
  text; the glyphs, the indentation and the clock time of the text are left out.
\<close>

datatype message =
    Title | Title_rule | Purpose | Press_ctrl_c
  | Saved_settings nat
  | Found_monitors nat
  | Monitor_line nat string bool
  | Blank
  | No_secondary_warning | Continuing_anyway
  | Lol_detected | Warning_5_seconds | Move_apps_now | Countdown nat
  | Disabling_secondary
  | Attempting_to_disable string
  | Successfully_disabled string
  | Failed_to_disable string
  | Retry_successful
  | Disabling_complete
  | Lol_closed
  | Restoring string
  | Restored_successfully
  | Failed_to_restore
  | All_restored
  | Exiting | Reenabling_before_exit | Restored string | Goodbye
  | Process_detected
  | Disabled string
  | Monitoring_active
  | Process_closed
  | Failed_to_restore_monitor string
  | Idle_waiting

datatype event =
    ChangeDisplaySettingsEx string DEVMODE "32 word"
  | Sleep nat
  | Print message
  | Emit message

section \<open>The display functions (identical in both files)\<close>

text \<open>
  \<^verbatim>\<open>get_all_monitors\<close>: the \<^verbatim>\<open>while True\<close> loop over the device index \<open>i\<close>, which
  stops when \<^verbatim>\<open>EnumDisplayDevices\<close> returns zero, that is at the end of the table.
\<close>

fun get_all_monitors_loop :: "display_table \<Rightarrow> nat \<Rightarrow> monitor list \<Rightarrow> monitor list" where
  "get_all_monitors_loop [] i monitors = monitors"
| "get_all_monitors_loop ((device, reply) # rest) i monitors =
     get_all_monitors_loop rest (i + 1)
       (if StateFlags device AND 1 \<noteq> 0 then
          (case reply of
             Some devmode \<Rightarrow>
               monitors @ [\<lparr> index = i, name = DeviceName device,
                             description = DeviceString device, settings = devmode,
                             is_primary = (StateFlags device AND 4 \<noteq> 0) \<rparr>]
           | None \<Rightarrow> monitors)
        else monitors)"

definition get_all_monitors :: "os \<Rightarrow> world \<Rightarrow> monitor list \<times> world" where
  "get_all_monitors os w =
     (get_all_monitors_loop (display_table os (enum_calls w)) 0 [],
      w\<lparr>enum_calls := enum_calls w + 1\<rparr>)"

text \<open>
  \<^verbatim>\<open>save_monitor_settings\<close>: the \<^verbatim>\<open>for\<close> loop that stores every enumerated monitor.
  The console file also prints the size of the dictionary; the tray file does not.
\<close>

fun store_settings :: "monitor list \<Rightarrow> (string \<times> DEVMODE) list \<Rightarrow> (string \<times> DEVMODE) list" where
  "store_settings [] ms = ms"
| "store_settings (monitor # rest) ms =
     store_settings rest (AList.update (name monitor) (settings monitor) ms)"

definition save_monitor_settings :: "os \<Rightarrow> world \<Rightarrow> world" where
  "save_monitor_settings os w =
     (let (monitors, w1) = get_all_monitors os w
      in w1\<lparr>monitor_settings := store_settings monitors (monitor_settings w1)\<rparr>)"

definition cli_save_monitor_settings :: "os \<Rightarrow> world \<Rightarrow> world \<times> event list" where
  "cli_save_monitor_settings os w =
     (let w1 = save_monitor_settings os w
      in (w1, [Print (Saved_settings (length (monitor_settings w1)))]))"

text \<open>The one place where the OS mode-change function is called.\<close>

definition ChangeDisplaySettingsEx_call ::
    "os \<Rightarrow> string \<Rightarrow> DEVMODE \<Rightarrow> 32 word \<Rightarrow> world \<Rightarrow> int \<times> world \<times> event list" where
  "ChangeDisplaySettingsEx_call os nm dm fl w =
     (cds_result os (cds_calls w) nm dm fl,
      w\<lparr>cds_calls := cds_calls w + 1\<rparr>,
      [ChangeDisplaySettingsEx nm dm fl])"

definition disable_devmode :: DEVMODE where
  "disable_devmode =
     DEVMODE_new\<lparr> dmSize := sizeof_DEVMODE,
                  dmFields := DM_PELSWIDTH OR DM_PELSHEIGHT OR DM_POSITION,
                  dmPelsWidth := 0,
                  dmPelsHeight := 0 \<rparr>"

definition disable_monitor :: "os \<Rightarrow> string \<Rightarrow> world \<Rightarrow> bool \<times> world \<times> event list" where
  "disable_monitor os monitor_name w =
     (let (result, w1, es) = ChangeDisplaySettingsEx_call os monitor_name disable_devmode 0 w
      in (result = DISP_CHANGE_SUCCESSFUL, w1, es))"

definition restore_monitor ::
    "os \<Rightarrow> string \<Rightarrow> DEVMODE \<Rightarrow> world \<Rightarrow> bool \<times> world \<times> event list" where
  "restore_monitor os monitor_name settings0 w =
     (let (result, w1, es) = ChangeDisplaySettingsEx_call os monitor_name settings0 0 w
      in (result = DISP_CHANGE_SUCCESSFUL, w1, es))"

section \<open>The console variant: \<^verbatim>\<open>main\<close> of \<^verbatim>\<open>monitor_manager.py\<close>\<close>

text \<open>
  The local variables of \<^verbatim>\<open>main\<close>. The presence detector \<^verbatim>\<open>is_lol_running\<close> is an
  input: a run is driven by the list of its answers, one for each iteration of the
  \<^verbatim>\<open>while True\<close> loop that runs before \<^verbatim>\<open>KeyboardInterrupt\<close> arrives (taken to arrive
  between two iterations, where the loop sleeps).
\<close>

record main_locals =
  primary_monitor :: "monitor option"
  secondary_monitors :: "monitor list"
  lol_was_running :: bool
  monitors_disabled :: bool

definition world_init :: world where
  "world_init = \<lparr> monitor_settings = [], enum_calls = 0, cds_calls = 0 \<rparr>"

text \<open>Lines 146 to 152: the loop that prints each monitor and sorts it by role.\<close>

fun cli_list_monitors ::
    "nat \<Rightarrow> monitor list \<Rightarrow> monitor option \<Rightarrow> monitor list
      \<Rightarrow> monitor option \<times> monitor list \<times> event list" where
  "cli_list_monitors i [] pm sm = (pm, sm, [])"
| "cli_list_monitors i (monitor # rest) pm sm =
     (let (pm1, sm1, es) =
            (if is_primary monitor then cli_list_monitors (i + 1) rest (Some monitor) sm
             else cli_list_monitors (i + 1) rest pm (sm @ [monitor]))
      in (pm1, sm1, Print (Monitor_line (i + 1) (description monitor) (is_primary monitor)) # es))"

definition cli_startup :: "os \<Rightarrow> world \<Rightarrow> main_locals \<times> world \<times> event list" where
  "cli_startup os w =
     (let (w1, e1) = cli_save_monitor_settings os w;
          (monitors, w2) = get_all_monitors os w1;
          (pm, sm, e2) = cli_list_monitors 0 monitors None []
      in (\<lparr> primary_monitor = pm, secondary_monitors = sm,
              lol_was_running = False, monitors_disabled = False \<rparr>,
          w2,
          [Print Title, Print Title_rule, Print Purpose, Print Press_ctrl_c] @ e1
            @ [Print (Found_monitors (length monitors))] @ e2 @ [Print Blank]
            @ (if sm = [] then [Print No_secondary_warning, Print Continuing_anyway] else [])))"

text \<open>Lines 177 to 187: the disable pass, with its single retry after half a second.\<close>

fun cli_disable_all :: "os \<Rightarrow> monitor list \<Rightarrow> world \<Rightarrow> world \<times> event list" where
  "cli_disable_all os [] w = (w, [])"
| "cli_disable_all os (monitor # rest) w =
     (let (result, w1, e1) = disable_monitor os (name monitor) w;
          (w2, e2) =
            (if result then (w1, [Print (Successfully_disabled (description monitor))])
             else (let (retry, w', e') = disable_monitor os (name monitor) w1
                   in (w', [Print (Failed_to_disable (description monitor)), Sleep 500] @ e'
                            @ (if retry then [Print Retry_successful] else []))));
          (w3, e3) = cli_disable_all os rest w2
      in (w3, [Print (Attempting_to_disable (description monitor))] @ e1 @ e2 @ e3))"

text \<open>
  Lines 197 to 207: the restore pass. \<^verbatim>\<open>name in monitor_settings\<close> followed by
  \<^verbatim>\<open>monitor_settings[name]\<close> is one lookup in the dictionary.
\<close>

fun cli_restore_all :: "os \<Rightarrow> monitor list \<Rightarrow> world \<Rightarrow> world \<times> event list" where
  "cli_restore_all os [] w = (w, [])"
| "cli_restore_all os (monitor # rest) w =
     (case map_of (monitor_settings w) (name monitor) of
        None \<Rightarrow> cli_restore_all os rest w
      | Some saved \<Rightarrow>
          (let (result, w1, e1) = restore_monitor os (name monitor) saved w;
               (w2, e2) =
                 (if result then (w1, [Print Restored_successfully])
                  else (let (retry, w', e') = restore_monitor os (name monitor) saved w1
                        in (w', [Print Failed_to_restore, Sleep 500] @ e'
                                 @ (if retry then [Print Retry_successful] else []))));
               (w3, e3) = cli_restore_all os rest w2
           in (w3, [Print (Restoring (description monitor))] @ e1 @ e2 @ e3)))"

definition countdown :: "event list" where
  "countdown = concat (map (\<lambda>i. [Print (Countdown i), Sleep 1000]) [5, 4, 3, 2, 1])"

text \<open>Lines 164 to 213: one iteration of the polling loop, given the presence sample.\<close>

definition cli_iteration ::
    "os \<Rightarrow> bool \<Rightarrow> main_locals \<Rightarrow> world \<Rightarrow> main_locals \<times> world \<times> event list" where
  "cli_iteration os lol_is_running l w =
     (if lol_is_running \<and> \<not> lol_was_running l then
        (let (w1, es) = cli_disable_all os (secondary_monitors l) w
         in (l\<lparr>monitors_disabled := True, lol_was_running := True\<rparr>, w1,
             [Print Lol_detected, Print Warning_5_seconds, Print Move_apps_now] @ countdown
               @ [Print Disabling_secondary] @ es @ [Print Disabling_complete, Sleep 2000]))
      else if \<not> lol_is_running \<and> lol_was_running l then
        (let (w1, es) = cli_restore_all os (secondary_monitors l) w
         in (l\<lparr>monitors_disabled := False, lol_was_running := False\<rparr>, w1,
             [Print Lol_closed] @ es @ [Print All_restored, Sleep 2000]))
      else (l, w, [Sleep 2000]))"

fun cli_loop ::
    "os \<Rightarrow> bool list \<Rightarrow> main_locals \<Rightarrow> world \<Rightarrow> main_locals \<times> world \<times> event list" where
  "cli_loop os [] l w = (l, w, [])"
| "cli_loop os (sample # samples) l w =
     (let (l1, w1, e1) = cli_iteration os sample l w;
          (l2, w2, e2) = cli_loop os samples l1 w1
      in (l2, w2, e1 @ e2))"

text \<open>Lines 215 to 223: the \<^verbatim>\<open>KeyboardInterrupt\<close> handler.\<close>

fun cli_exit_restore_all :: "os \<Rightarrow> monitor list \<Rightarrow> world \<Rightarrow> world \<times> event list" where
  "cli_exit_restore_all os [] w = (w, [])"
| "cli_exit_restore_all os (monitor # rest) w =
     (case map_of (monitor_settings w) (name monitor) of
        None \<Rightarrow> cli_exit_restore_all os rest w
      | Some saved \<Rightarrow>
          (let (result, w1, e1) = restore_monitor os (name monitor) saved w;
               (w2, e2) = cli_exit_restore_all os rest w1
           in (w2, e1 @ [Print (Restored (description monitor))] @ e2)))"

definition cli_interrupt :: "os \<Rightarrow> main_locals \<Rightarrow> world \<Rightarrow> world \<times> event list" where
  "cli_interrupt os l w =
     (if monitors_disabled l then
        (let (w1, es) = cli_exit_restore_all os (secondary_monitors l) w
         in (w1, [Print Exiting, Print Reenabling_before_exit] @ es @ [Print Goodbye]))
      else (w, [Print Exiting, Print Goodbye]))"

text \<open>
  \<^verbatim>\<open>main\<close> as a whole, for the runs in which \<^verbatim>\<open>KeyboardInterrupt\<close> arrives while the loop
  sleeps after the last of the given iterations. An interrupt that arrives inside an
  iteration (in the countdown or in a pass, which it would abort before the flags are
  set) is not a run of this function.
\<close>

definition cli_main :: "os \<Rightarrow> bool list \<Rightarrow> main_locals \<times> world \<times> event list" where
  "cli_main os samples =
     (let (l0, w0, e0) = cli_startup os world_init;
          (l1, w1, e1) = cli_loop os samples l0 w0;
          (w2, e2) = cli_interrupt os l1 w1
      in (l1, w2, e0 @ e1 @ e2))"

section \<open>The tray variant: \<^verbatim>\<open>MonitorThread\<close> and \<^verbatim>\<open>SystemTrayApp\<close> of \<^verbatim>\<open>main.py\<close>\<close>

text \<open>
  The attributes of \<^verbatim>\<open>MonitorThread\<close> that the loop reads and writes (the attribute
  \<^verbatim>\<open>monitors_disabled\<close> is \<open>thread_monitors_disabled\<close> here). The answers of
  \<^verbatim>\<open>is_target_running\<close> are the input, one for each iteration that \<^verbatim>\<open>run\<close> starts
  before \<^verbatim>\<open>stop\<close> is called; \<^verbatim>\<open>stop\<close> is taken to run between two iterations.
\<close>

record MonitorThread =
  running :: bool
  process_was_running :: bool
  thread_monitors_disabled :: bool

definition MonitorThread_init :: MonitorThread where
  "MonitorThread_init =
     \<lparr> running = True, process_was_running = False, thread_monitors_disabled = False \<rparr>"

text \<open>Lines 182 to 186.\<close>

fun gui_disable_all :: "os \<Rightarrow> monitor list \<Rightarrow> world \<Rightarrow> world \<times> event list" where
  "gui_disable_all os [] w = (w, [])"
| "gui_disable_all os (monitor # rest) w =
     (let (result, w1, e1) = disable_monitor os (name monitor) w;
          (w2, e2) = gui_disable_all os rest w1
      in (w2, e1 @ [Emit (if result then Disabled (description monitor)
                          else Failed_to_disable (description monitor))] @ e2))"

text \<open>Lines 201 to 206.\<close>

fun gui_restore_all :: "os \<Rightarrow> monitor list \<Rightarrow> world \<Rightarrow> world \<times> event list" where
  "gui_restore_all os [] w = (w, [])"
| "gui_restore_all os (monitor # rest) w =
     (case map_of (monitor_settings w) (name monitor) of
        None \<Rightarrow> gui_restore_all os rest w
      | Some saved \<Rightarrow>
          (let (result, w1, e1) = restore_monitor os (name monitor) saved w;
               (w2, e2) = gui_restore_all os rest w1
           in (w2, e1 @ [Emit (if result then Restored (description monitor)
                               else Failed_to_restore_monitor (description monitor))] @ e2)))"

text \<open>Lines 171 to 212: one iteration of \<^verbatim>\<open>run\<close>, given the presence sample.\<close>

definition gui_iteration ::
    "os \<Rightarrow> bool \<Rightarrow> MonitorThread \<Rightarrow> world \<Rightarrow> MonitorThread \<times> world \<times> event list" where
  "gui_iteration os process_is_running t w =
     (if process_is_running \<and> \<not> process_was_running t then
        (let (monitors, w1) = get_all_monitors os w;
             secondary = filter (\<lambda>m. \<not> is_primary m) monitors;
             (w2, es) = gui_disable_all os secondary w1
         in (t\<lparr>thread_monitors_disabled := True, process_was_running := True\<rparr>, w2,
             [Emit Process_detected] @ es @ [Emit Monitoring_active, Sleep 2000]))
      else if \<not> process_is_running \<and> process_was_running t then
        (let (monitors, w1) = get_all_monitors os w;
             secondary = filter (\<lambda>m. \<not> is_primary m) monitors;
             (w2, es) = gui_restore_all os secondary w1
         in (t\<lparr>thread_monitors_disabled := False, process_was_running := False\<rparr>, w2,
             [Emit Process_closed] @ es @ [Emit Idle_waiting, Sleep 2000]))
      else (t, w, [Sleep 2000]))"

fun gui_run ::
    "os \<Rightarrow> bool list \<Rightarrow> MonitorThread \<Rightarrow> world \<Rightarrow> MonitorThread \<times> world \<times> event list" where
  "gui_run os [] t w = (t, w, [])"
| "gui_run os (sample # samples) t w =
     (if running t then
        (let (t1, w1, e1) = gui_iteration os sample t w;
             (t2, w2, e2) = gui_run os samples t1 w1
         in (t2, w2, e1 @ e2))
      else (t, w, []))"

text \<open>Lines 223 to 225: the loop of \<^verbatim>\<open>stop\<close>, which emits nothing.\<close>

fun gui_stop_restore_all :: "os \<Rightarrow> monitor list \<Rightarrow> world \<Rightarrow> world \<times> event list" where
  "gui_stop_restore_all os [] w = (w, [])"
| "gui_stop_restore_all os (monitor # rest) w =
     (case map_of (monitor_settings w) (name monitor) of
        None \<Rightarrow> gui_stop_restore_all os rest w
      | Some saved \<Rightarrow>
          (let (result, w1, e1) = restore_monitor os (name monitor) saved w;
               (w2, e2) = gui_stop_restore_all os rest w1
           in (w2, e1 @ e2)))"

definition gui_stop :: "os \<Rightarrow> MonitorThread \<Rightarrow> world \<Rightarrow> MonitorThread \<times> world \<times> event list" where
  "gui_stop os t w =
     (let t1 = t\<lparr>running := False\<rparr>
      in if thread_monitors_disabled t1 then
           (let (monitors, w1) = get_all_monitors os w;
                secondary = filter (\<lambda>m. \<not> is_primary m) monitors;
                (w2, es) = gui_stop_restore_all os secondary w1
            in (t1, w2, es))
         else (t1, w, []))"

text \<open>
  \<^verbatim>\<open>SystemTrayApp.__init__\<close> saves the settings and starts the thread; \<^verbatim>\<open>exit_app\<close>
  stops it. This is the application as a whole for the runs in which \<^verbatim>\<open>stop\<close> is called
  while the thread sleeps after the last of the given iterations. A call of \<^verbatim>\<open>stop\<close>
  while the thread is inside an iteration, which then runs to its end next to the restore
  of \<^verbatim>\<open>stop\<close>, is not a run of this function.
\<close>

definition gui_app :: "os \<Rightarrow> bool list \<Rightarrow> MonitorThread \<times> world \<times> event list" where
  "gui_app os samples =
     (let w0 = save_monitor_settings os world_init;
          (t1, w1, e1) = gui_run os samples MonitorThread_init w0;
          (t2, w2, e2) = gui_stop os t1 w1
      in (t2, w2, e1 @ e2))"

section \<open>Observations on a trace\<close>

fun is_call :: "event \<Rightarrow> bool" where
  "is_call (ChangeDisplaySettingsEx nm dm fl) = True"
| "is_call e = False"

fun is_call_or_sleep :: "event \<Rightarrow> bool" where
  "is_call_or_sleep (ChangeDisplaySettingsEx nm dm fl) = True"
| "is_call_or_sleep (Sleep ms) = True"
| "is_call_or_sleep e = False"

definition calls :: "event list \<Rightarrow> event list" where
  "calls es = filter is_call es"

section \<open>Concrete displays and operating systems\<close>

text \<open>
  Two attached displays (state flags 5: attached and primary; 1: attached), their modes,
  and a few operating systems to run the variants on. The return code -1 is
  \<^verbatim>\<open>DISP_CHANGE_FAILED\<close>.
\<close>

definition display1 :: DISPLAY_DEVICE where
  "display1 = \<lparr> cb = 840, DeviceName = ''DISPLAY1'', DeviceString = ''Laptop panel'',
                 StateFlags = 5, DeviceID = [], DeviceKey = [] \<rparr>"

definition display2 :: DISPLAY_DEVICE where
  "display2 = \<lparr> cb = 840, DeviceName = ''DISPLAY2'', DeviceString = ''Desk monitor'',
                 StateFlags = 1, DeviceID = [], DeviceKey = [] \<rparr>"

definition mode_panel :: DEVMODE where
  "mode_panel = DEVMODE_new\<lparr> dmSize := 220, dmBitsPerPel := 32, dmPelsWidth := 1920,
                              dmPelsHeight := 1080, dmDisplayFrequency := 60 \<rparr>"

definition mode_desk :: DEVMODE where
  "mode_desk = DEVMODE_new\<lparr> dmSize := 220, dmPositionX := 1920, dmBitsPerPel := 32,
                             dmPelsWidth := 2560, dmPelsHeight := 1440,
                             dmDisplayFrequency := 144 \<rparr>"

definition mode_desk_low :: DEVMODE where
  "mode_desk_low = mode_desk\<lparr> dmPelsWidth := 1280, dmPelsHeight := 720 \<rparr>"

definition table_single :: display_table where
  "table_single = [(display1, Some mode_panel)]"

definition table_dual :: display_table where
  "table_dual = [(display1, Some mode_panel), (display2, Some mode_desk)]"

definition table_dual_low :: display_table where
  "table_dual_low = [(display1, Some mode_panel), (display2, Some mode_desk_low)]"

definition os_steady :: os where
  "os_steady = \<lparr> display_table = (\<lambda>k. table_dual), cds_result = (\<lambda>k nm dm fl. 0) \<rparr>"

definition os_hotplug :: os where
  "os_hotplug = \<lparr> display_table = (\<lambda>k. if k = 0 then table_single else table_dual),
                   cds_result = (\<lambda>k nm dm fl. 0) \<rparr>"

definition os_mode_change :: os where
  "os_mode_change = \<lparr> display_table = (\<lambda>k. if k = 0 then table_dual else table_dual_low),
                       cds_result = (\<lambda>k nm dm fl. 0) \<rparr>"

definition os_unplug :: os where
  "os_unplug = \<lparr> display_table = (\<lambda>k. if k \<le> 1 then table_dual else table_single),
                  cds_result = (\<lambda>k nm dm fl. 0) \<rparr>"

definition os_fail_first :: os where
  "os_fail_first = \<lparr> display_table = (\<lambda>k. table_dual),
                      cds_result = (\<lambda>k nm dm fl. if k = 0 then -1 else 0) \<rparr>"

definition os_fail_always :: os where
  "os_fail_always = \<lparr> display_table = (\<lambda>k. table_dual), cds_result = (\<lambda>k nm dm fl. -1) \<rparr>"

definition monitor1 :: monitor where
  "monitor1 = \<lparr> index = 0, name = ''DISPLAY1'', description = ''Laptop panel'',
                 settings = mode_panel, is_primary = True \<rparr>"

definition monitor2 :: monitor where
  "monitor2 = \<lparr> index = 1, name = ''DISPLAY2'', description = ''Desk monitor'',
                 settings = mode_desk, is_primary = False \<rparr>"

section \<open>Notions used to state the properties\<close>

text \<open>
  The sample that precedes the next one: the last sample taken, and \<open>False\<close> before the
  first one (both loops start with their "was running" flag cleared).
\<close>

definition previous_sample :: "bool list \<Rightarrow> bool" where
  "previous_sample samples = last (False # samples)"

fun rising_edges :: "bool \<Rightarrow> bool list \<Rightarrow> nat" where
  "rising_edges prev [] = 0"
| "rising_edges prev (b # bs) = (if b \<and> \<not> prev then 1 else 0) + rising_edges b bs"

fun falling_edges :: "bool \<Rightarrow> bool list \<Rightarrow> nat" where
  "falling_edges prev [] = 0"
| "falling_edges prev (b # bs) = (if \<not> b \<and> prev then 1 else 0) + falling_edges b bs"

text \<open>
  The state of each variant after startup and the given presence samples, and the trace
  of its polling loop over these samples.
\<close>

definition cli_state_after :: "os \<Rightarrow> bool list \<Rightarrow> main_locals \<times> world" where
  "cli_state_after os samples =
     (let (l0, w0, e0) = cli_startup os world_init;
          (l, w, es) = cli_loop os samples l0 w0
      in (l, w))"

definition cli_loop_events :: "os \<Rightarrow> bool list \<Rightarrow> event list" where
  "cli_loop_events os samples =
     (let (l0, w0, e0) = cli_startup os world_init;
          (l, w, es) = cli_loop os samples l0 w0
      in es)"

definition gui_state_after :: "os \<Rightarrow> bool list \<Rightarrow> MonitorThread \<times> world" where
  "gui_state_after os samples =
     (let w0 = save_monitor_settings os world_init;
          (t, w, es) = gui_run os samples MonitorThread_init w0
      in (t, w))"

definition gui_loop_events :: "os \<Rightarrow> bool list \<Rightarrow> event list" where
  "gui_loop_events os samples =
     (let w0 = save_monitor_settings os world_init;
          (t, w, es) = gui_run os samples MonitorThread_init w0
      in es)"

text \<open>
  The mode-change requests of a pass, in order: a disable pass asks for the disabling mode
  on every monitor of its list; a restore pass asks, for every monitor of its list that
  has an entry in the dictionary, for the stored mode.
\<close>

definition disable_requests :: "monitor list \<Rightarrow> (string \<times> DEVMODE) list" where
  "disable_requests mons = map (\<lambda>m. (name m, disable_devmode)) mons"

definition restore_requests ::
    "(string \<times> DEVMODE) list \<Rightarrow> monitor list \<Rightarrow> (string \<times> DEVMODE) list" where
  "restore_requests ms mons =
     List.map_filter (\<lambda>m. map_option (\<lambda>saved. (name m, saved)) (map_of ms (name m))) mons"

text \<open>
  The two retry policies, written from the specification's words. "Retried exactly once
  after a short fixed delay, then the pass continues": each request is called; when the
  call (the k-th of the run) does not return success, half a second passes and the same
  request is called once more, whatever that returns. "A single call with no retry": each
  request is called once.
\<close>

fun retry_once_policy :: "os \<Rightarrow> (string \<times> DEVMODE) list \<Rightarrow> nat \<Rightarrow> event list" where
  "retry_once_policy os [] k = []"
| "retry_once_policy os ((nm, dm) # requests) k =
     (if cds_result os k nm dm 0 = DISP_CHANGE_SUCCESSFUL
      then ChangeDisplaySettingsEx nm dm 0 # retry_once_policy os requests (k + 1)
      else [ChangeDisplaySettingsEx nm dm 0, Sleep 500, ChangeDisplaySettingsEx nm dm 0]
             @ retry_once_policy os requests (k + 2))"

definition single_attempt_policy :: "(string \<times> DEVMODE) list \<Rightarrow> event list" where
  "single_attempt_policy requests = map (\<lambda>(nm, dm). ChangeDisplaySettingsEx nm dm 0) requests"

fun is_failure_report :: "event \<Rightarrow> bool" where
  "is_failure_report (Print (Failed_to_disable d)) = True"
| "is_failure_report (Print Failed_to_restore) = True"
| "is_failure_report e = False"

fun call_targets :: "event list \<Rightarrow> string list" where
  "call_targets [] = []"
| "call_targets (ChangeDisplaySettingsEx nm dm fl # es) = nm # call_targets es"
| "call_targets (e # es) = call_targets es"

text \<open>The identifiers that the k-th enumeration of a run lists.\<close>

definition enumerated_names :: "os \<Rightarrow> nat \<Rightarrow> string set" where
  "enumerated_names os k = name ` set (get_all_monitors_loop (display_table os k) 0 [])"

section \<open>Basic facts\<close>

lemma disable_monitor_eq:
  "disable_monitor os nm w =
     (cds_result os (cds_calls w) nm disable_devmode 0 = DISP_CHANGE_SUCCESSFUL,
      w\<lparr>cds_calls := cds_calls w + 1\<rparr>,
      [ChangeDisplaySettingsEx nm disable_devmode 0])"
  by (simp add: disable_monitor_def ChangeDisplaySettingsEx_call_def)

lemma restore_monitor_eq:
  "restore_monitor os nm dm w =
     (cds_result os (cds_calls w) nm dm 0 = DISP_CHANGE_SUCCESSFUL,
      w\<lparr>cds_calls := cds_calls w + 1\<rparr>,
      [ChangeDisplaySettingsEx nm dm 0])"
  by (simp add: restore_monitor_def ChangeDisplaySettingsEx_call_def)

lemma get_all_monitors_eq:
  "get_all_monitors os w =
     (get_all_monitors_loop (display_table os (enum_calls w)) 0 [], w\<lparr>enum_calls := enum_calls w + 1\<rparr>)"
  by (simp add: get_all_monitors_def)

lemma find_append_cases:
  "find P (xs @ ys) = (case find P xs of None \<Rightarrow> find P ys | Some x \<Rightarrow> Some x)"
  by (induction xs) simp_all

lemma map_of_store_settings:
  "map_of (store_settings mons ms) n =
     (case find (\<lambda>m. name m = n) (rev mons) of
        None \<Rightarrow> map_of ms n
      | Some m \<Rightarrow> Some (settings m))"
proof (induction mons arbitrary: ms)
  case Nil
  show ?case by simp
next
  case (Cons m mons)
  show ?case
    by (simp add: Cons.IH find_append_cases update_conv' split: option.splits)
qed

lemma keys_store_settings:
  "map_of (store_settings mons ms) n \<noteq> None
     \<longleftrightarrow> map_of ms n \<noteq> None \<or> n \<in> name ` set mons"
  by (induction mons arbitrary: ms) (auto simp: update_conv')

lemma settings_cli_disable_all:
  "monitor_settings (fst (cli_disable_all os mons w)) = monitor_settings w"
  by (induction mons arbitrary: w) (simp_all add: disable_monitor_eq split_beta)

lemma settings_cli_restore_all:
  "monitor_settings (fst (cli_restore_all os mons w)) = monitor_settings w"
  by (induction mons arbitrary: w) (simp_all add: restore_monitor_eq split_beta split: option.splits)

lemma settings_cli_exit_restore_all:
  "monitor_settings (fst (cli_exit_restore_all os mons w)) = monitor_settings w"
  by (induction mons arbitrary: w) (simp_all add: restore_monitor_eq split_beta split: option.splits)

lemma settings_gui_disable_all:
  "monitor_settings (fst (gui_disable_all os mons w)) = monitor_settings w"
  by (induction mons arbitrary: w) (simp_all add: disable_monitor_eq split_beta)

lemma settings_gui_restore_all:
  "monitor_settings (fst (gui_restore_all os mons w)) = monitor_settings w"
  by (induction mons arbitrary: w) (simp_all add: restore_monitor_eq split_beta split: option.splits)

lemma settings_gui_stop_restore_all:
  "monitor_settings (fst (gui_stop_restore_all os mons w)) = monitor_settings w"
  by (induction mons arbitrary: w) (simp_all add: restore_monitor_eq split_beta split: option.splits)

lemma settings_cli_iteration:
  "monitor_settings (fst (snd (cli_iteration os b l w))) = monitor_settings w"
  by (simp add: cli_iteration_def settings_cli_disable_all settings_cli_restore_all split_beta)

lemma settings_gui_iteration:
  "monitor_settings (fst (snd (gui_iteration os b t w))) = monitor_settings w"
  by (simp add: gui_iteration_def get_all_monitors_eq settings_gui_disable_all settings_gui_restore_all split_beta Let_def)

lemma settings_cli_loop:
  "monitor_settings (fst (snd (cli_loop os samples l w))) = monitor_settings w"
  by (induction samples arbitrary: l w) (simp_all add: split_beta settings_cli_iteration)

lemma settings_gui_run:
  "monitor_settings (fst (snd (gui_run os samples t w))) = monitor_settings w"
  by (induction samples arbitrary: t w) (simp_all add: split_beta settings_gui_iteration)

lemma settings_cli_interrupt:
  "monitor_settings (fst (cli_interrupt os l w)) = monitor_settings w"
  by (simp add: cli_interrupt_def split_beta settings_cli_exit_restore_all)

lemma settings_gui_stop:
  "monitor_settings (fst (snd (gui_stop os t w))) = monitor_settings w"
  by (simp add: gui_stop_def get_all_monitors_eq split_beta settings_gui_stop_restore_all Let_def)

lemma settings_cli_startup:
  "monitor_settings (fst (snd (cli_startup os w))) =
     store_settings (get_all_monitors_loop (display_table os (enum_calls w)) 0 []) (monitor_settings w)"
  by (simp add: cli_startup_def cli_save_monitor_settings_def save_monitor_settings_def
      get_all_monitors_eq split_beta Let_def)

lemma get_all_monitors_loop_acc:
  "get_all_monitors_loop tbl i acc = acc @ get_all_monitors_loop tbl i []"
proof (induction tbl arbitrary: i acc)
  case Nil
  show ?case by simp
next
  case (Cons entry tbl)
  obtain device reply where entry: "entry = (device, reply)" by (cases entry)
  show ?case
    using Cons.IH [of "i + 1" "acc @ [x]" for x] Cons.IH [of "i + 1" "[x]" for x]
      Cons.IH [of "i + 1" acc]
    by (simp add: entry split: option.splits)
qed

lemma names_get_all_monitors_loop:
  "map (\<lambda>m. (name m, settings m)) (get_all_monitors_loop tbl i []) =
     List.map_filter
       (\<lambda>(device, reply). if StateFlags device AND 1 \<noteq> 0
                            then map_option (\<lambda>devmode. (DeviceName device, devmode)) reply
                            else None) tbl"
proof (induction tbl arbitrary: i)
  case Nil
  show ?case by (simp add: List.map_filter_simps)
next
  case (Cons entry tbl)
  obtain device reply where entry: "entry = (device, reply)" by (cases entry)
  show ?case
    using Cons.IH [of "i + 1"] get_all_monitors_loop_acc [of tbl "i + 1" "[x]" for x]
    by (simp add: entry List.map_filter_simps split: option.splits)
qed

lemma find_rev_distinct:
  "distinct (map f xs) \<Longrightarrow> x \<in> set xs \<Longrightarrow> find (\<lambda>y. f y = f x) (rev xs) = Some x"
proof (induction xs)
  case Nil
  then show ?case by simp
next
  case (Cons a xs)
  show ?case
  proof (cases "x \<in> set xs")
    case True
    with Cons show ?thesis by (simp add: find_append_cases)
  next
    case False
    with Cons.prems have "x = a" by simp
    moreover have "find (\<lambda>y. f y = f a) (rev xs) = None"
      using Cons.prems(1) by (fastforce simp: find_None_iff image_iff)
    ultimately show ?thesis by (simp add: find_append_cases)
  qed
qed

lemma distinct_map_filter_fst:
  "distinct (map fst (List.map_filter g xs))" if "distinct (map h xs)"
    and "\<And>x y. g x = Some y \<Longrightarrow> fst y = h x"
  using that
proof (induction xs)
  case Nil
  show ?case by (simp add: List.map_filter_simps)
next
  case (Cons a xs)
  show ?case
  proof (cases "g a")
    case None
    with Cons show ?thesis by (simp add: List.map_filter_simps)
  next
    case (Some y)
    have "fst y \<notin> fst ` set (List.map_filter g xs)"
    proof
      assume "fst y \<in> fst ` set (List.map_filter g xs)"
      then obtain z where "z \<in> set (List.map_filter g xs)" "fst z = fst y" by auto
      then obtain x where "x \<in> set xs" "g x = Some z"
        by (auto simp: List.map_filter_def)
      with Cons.prems(2) [of x z] Cons.prems(2) [of a y] Some \<open>fst z = fst y\<close>
      have "h x = h a" by simp
      with \<open>x \<in> set xs\<close> Cons.prems(1) show False by (fastforce simp: image_iff)
    qed
    with Cons Some show ?thesis by (simp add: List.map_filter_simps)
  qed
qed

lemma captured_mode_stored:
  assumes "(device, Some devmode) \<in> set tbl"
      and "StateFlags device AND 1 \<noteq> 0"
      and "distinct (map (\<lambda>(d, r). DeviceName d) tbl)"
  shows "map_of (store_settings (get_all_monitors_loop tbl 0 []) ms) (DeviceName device) = Some devmode"
proof -
  let ?mons = "get_all_monitors_loop tbl 0 []"
  let ?g = "\<lambda>(device, reply). if StateFlags device AND 1 \<noteq> 0
                            then map_option (\<lambda>devmode. (DeviceName device, devmode)) reply
                            else None"
  have pairs: "map (\<lambda>m. (name m, settings m)) ?mons = List.map_filter ?g tbl"
    by (rule names_get_all_monitors_loop)
  have "(DeviceName device, devmode) \<in> set (List.map_filter ?g tbl)"
    using assms(1,2) by (force simp: List.map_filter_def)
  then have "(DeviceName device, devmode) \<in> set (map (\<lambda>m. (name m, settings m)) ?mons)"
    by (simp only: pairs)
  then obtain m where m: "m \<in> set ?mons" "name m = DeviceName device" "settings m = devmode"
    by auto
  have "distinct (map fst (List.map_filter ?g tbl))"
    by (rule distinct_map_filter_fst [OF assms(3)]) (auto split: if_splits)
  then have "distinct (map fst (map (\<lambda>m. (name m, settings m)) ?mons))"
    by (simp only: pairs)
  then have "distinct (map name ?mons)" by (simp add: comp_def)
  from find_rev_distinct [OF this m(1)] m(2,3) show ?thesis
    by (simp add: map_of_store_settings)
qed

section \<open>The snapshot store\<close>

text \<open>
  Claim C2, as amended. The claim says that the first capture of an identifier wins when
  the baseline is captured more than once. The code assigns unconditionally: after
  \<^verbatim>\<open>save_monitor_settings\<close>, every identifier of the current enumeration holds the mode
  just captured (the last monitor of that name in the enumeration), and every other
  identifier keeps the entry it had.
\<close>

theorem save_monitor_settings_overwrites:
  "map_of (monitor_settings (save_monitor_settings os w)) n =
     (case find (\<lambda>m. name m = n) (rev (fst (get_all_monitors os w))) of
        None \<Rightarrow> map_of (monitor_settings w) n
      | Some m \<Rightarrow> Some (settings m))"
  by (simp add: save_monitor_settings_def get_all_monitors_eq map_of_store_settings)

theorem save_monitor_settings_overwrites_witness:
  "map_of (monitor_settings (save_monitor_settings os_mode_change
      (save_monitor_settings os_mode_change world_init))) ''DISPLAY2'' = Some mode_desk_low"
  using save_monitor_settings_overwrites
    [of os_mode_change "save_monitor_settings os_mode_change world_init" "''DISPLAY2''"]
  by (simp add: save_monitor_settings_def get_all_monitors_eq os_mode_change_def world_init_def
      table_dual_low_def table_dual_def display1_def display2_def)

text \<open>
  The claim as stated fails: two captures in a row, with no disable in between, of a
  display whose mode changed from 2560x1440 to 1280x720 leave the second mode stored.
\<close>

theorem save_monitor_settings_first_wins_counterexample:
  "map_of (monitor_settings (save_monitor_settings os_mode_change world_init)) ''DISPLAY2''
     = Some mode_desk
   \<and> map_of (monitor_settings (save_monitor_settings os_mode_change
        (save_monitor_settings os_mode_change world_init))) ''DISPLAY2'' = Some mode_desk_low
   \<and> mode_desk_low \<noteq> mode_desk"
  by (simp add: save_monitor_settings_def get_all_monitors_eq os_mode_change_def world_init_def
      table_dual_low_def table_dual_def display1_def display2_def mode_desk_low_def mode_desk_def
      DEVMODE_new_def)

text \<open>
  Claim C10. The dictionary \<^verbatim>\<open>monitor_settings\<close> is written by
  \<^verbatim>\<open>save_monitor_settings\<close> alone, which each variant calls once, at startup with the first
  enumeration of the run: after a whole run of either variant, over any presence samples
  and any OS answers, it is the dictionary stored from that first enumeration; and
  \<^verbatim>\<open>disable_monitor\<close>, \<^verbatim>\<open>restore_monitor\<close>, one iteration of either polling loop and any
  number of iterations leave it as it was.
\<close>

theorem snapshot_written_once:
  "monitor_settings (fst (snd (cli_main os samples)))
     = store_settings (get_all_monitors_loop (display_table os 0) 0 []) []
   \<and> monitor_settings (fst (snd (gui_app os samples)))
     = store_settings (get_all_monitors_loop (display_table os 0) 0 []) []
   \<and> monitor_settings (fst (snd (disable_monitor os nm w))) = monitor_settings w
   \<and> monitor_settings (fst (snd (restore_monitor os nm dm w))) = monitor_settings w
   \<and> monitor_settings (fst (snd (cli_iteration os b l w))) = monitor_settings w
   \<and> monitor_settings (fst (snd (gui_iteration os b t w))) = monitor_settings w
   \<and> monitor_settings (fst (snd (cli_loop os samples l w))) = monitor_settings w
   \<and> monitor_settings (fst (snd (gui_run os samples t w))) = monitor_settings w"
proof -
  have cli: "monitor_settings (fst (snd (cli_main os samples)))
     = store_settings (get_all_monitors_loop (display_table os 0) 0 []) []"
    using settings_cli_startup [of os world_init]
    by (simp add: cli_main_def split_beta settings_cli_interrupt settings_cli_loop world_init_def)
  have gui: "monitor_settings (fst (snd (gui_app os samples)))
     = store_settings (get_all_monitors_loop (display_table os 0) 0 []) []"
    by (simp add: gui_app_def split_beta Let_def settings_gui_stop settings_gui_run
        save_monitor_settings_def get_all_monitors_eq world_init_def)
  show ?thesis
    using cli gui
    by (simp add: disable_monitor_eq restore_monitor_eq settings_cli_iteration
        settings_gui_iteration settings_cli_loop settings_gui_run)
qed

theorem snapshot_written_once_witness:
  "monitor_settings (fst (snd (cli_main os_steady [True, False])))
     = [(''DISPLAY1'', mode_panel), (''DISPLAY2'', mode_desk)]
   \<and> monitor_settings (fst (snd (gui_app os_steady [True, False])))
     = [(''DISPLAY1'', mode_panel), (''DISPLAY2'', mode_desk)]"
  using snapshot_written_once [of os_steady "[True, False]"]
  by (simp add: os_steady_def table_dual_def display1_def display2_def)

section \<open>The mode controller\<close>

text \<open>
  Claim C4, as amended. \<^verbatim>\<open>disable_monitor\<close> makes one mode-change call for the named
  display, with a mode structure whose width, height and position are zero and whose
  field mask is \<^verbatim>\<open>DM_PELSWIDTH | DM_PELSHEIGHT | DM_POSITION\<close>, and with \<^verbatim>\<open>dwflags = 0\<close>
  (not \<^verbatim>\<open>CDS_UPDATEREGISTRY\<close>); it returns true exactly when the OS returns
  \<^verbatim>\<open>DISP_CHANGE_SUCCESSFUL\<close>, which is 0.
\<close>

theorem disable_monitor_call:
  "disable_monitor os nm w =
     (cds_result os (cds_calls w) nm disable_devmode 0 = DISP_CHANGE_SUCCESSFUL,
      w\<lparr>cds_calls := cds_calls w + 1\<rparr>,
      [ChangeDisplaySettingsEx nm disable_devmode 0])
   \<and> dmPelsWidth disable_devmode = 0 \<and> dmPelsHeight disable_devmode = 0
   \<and> dmPositionX disable_devmode = 0 \<and> dmPositionY disable_devmode = 0
   \<and> dmFields disable_devmode = 0x180020 \<and> dmSize disable_devmode = 220
   \<and> DISP_CHANGE_SUCCESSFUL = 0"
  by (simp add: disable_monitor_eq disable_devmode_def DEVMODE_new_def sizeof_DEVMODE_def
      DM_PELSWIDTH_def DM_PELSHEIGHT_def DM_POSITION_def DISP_CHANGE_SUCCESSFUL_def)

theorem disable_monitor_call_witness:
  "disable_monitor os_fail_always ''DISPLAY2'' world_init =
     (False, world_init\<lparr>cds_calls := 1\<rparr>, [ChangeDisplaySettingsEx ''DISPLAY2'' disable_devmode 0])"
  using disable_monitor_call [of os_fail_always "''DISPLAY2''" world_init]
  by (simp add: os_fail_always_def world_init_def)

text \<open>
  The claim as stated fails: the flags of the call are 0, and \<^verbatim>\<open>CDS_UPDATEREGISTRY\<close>
  is 1.
\<close>

theorem disable_monitor_flags_counterexample:
  "snd (snd (disable_monitor os_steady ''DISPLAY2'' world_init))
     = [ChangeDisplaySettingsEx ''DISPLAY2'' disable_devmode 0]
   \<and> snd (snd (disable_monitor os_steady ''DISPLAY2'' world_init))
     \<noteq> [ChangeDisplaySettingsEx ''DISPLAY2'' disable_devmode CDS_UPDATEREGISTRY]"
  by (simp add: disable_monitor_eq CDS_UPDATEREGISTRY_def)

text \<open>
  Claim C7. \<^verbatim>\<open>restore_monitor\<close> passes the mode structure it is given to the OS
  unchanged, in every field; and a mode captured by the enumeration for an attached device
  (device names being distinct in the display table) is stored under the device name as
  the OS filled it in, so that restoring the display from the store applies exactly the
  captured mode.
\<close>

theorem restore_passes_captured_mode:
  "snd (snd (restore_monitor os nm dm w')) = [ChangeDisplaySettingsEx nm dm 0]
   \<and> ((device, Some devmode) \<in> set (display_table os (enum_calls w))
        \<and> StateFlags device AND 1 \<noteq> 0
        \<and> distinct (map (\<lambda>(d, r). DeviceName d) (display_table os (enum_calls w)))
      \<longrightarrow> map_of (monitor_settings (save_monitor_settings os w)) (DeviceName device) = Some devmode
          \<and> snd (snd (restore_monitor os (DeviceName device) devmode w'))
              = [ChangeDisplaySettingsEx (DeviceName device) devmode 0])"
  using captured_mode_stored [of device devmode "display_table os (enum_calls w)" "monitor_settings w"]
  by (simp add: restore_monitor_eq save_monitor_settings_def get_all_monitors_eq)

theorem restore_passes_captured_mode_witness:
  "map_of (monitor_settings (save_monitor_settings os_steady world_init)) ''DISPLAY2'' = Some mode_desk
   \<and> snd (snd (restore_monitor os_steady ''DISPLAY2'' mode_desk world_init))
       = [ChangeDisplaySettingsEx ''DISPLAY2'' mode_desk 0]"
  using restore_passes_captured_mode [of os_steady "''DISPLAY2''" mode_desk world_init display2 mode_desk world_init]
  by (simp add: os_steady_def table_dual_def display1_def display2_def world_init_def)

section \<open>The polling loops\<close>

lemma countdown_events:
  "countdown = [Print (Countdown 5), Sleep 1000, Print (Countdown 4), Sleep 1000,
     Print (Countdown 3), Sleep 1000, Print (Countdown 2), Sleep 1000,
     Print (Countdown 1), Sleep 1000]"
  by (simp add: countdown_def)

lemma prints_cli_disable_all:
  "Print msg \<in> set (snd (cli_disable_all os mons w)) \<Longrightarrow>
     (\<exists>d. msg = Attempting_to_disable d \<or> msg = Successfully_disabled d \<or> msg = Failed_to_disable d)
     \<or> msg = Retry_successful"
  by (induction mons arbitrary: w)
     (auto simp: disable_monitor_eq split_beta split: if_splits)

lemma prints_cli_restore_all:
  "Print msg \<in> set (snd (cli_restore_all os mons w)) \<Longrightarrow>
     (\<exists>d. msg = Restoring d) \<or> msg = Restored_successfully \<or> msg = Failed_to_restore
     \<or> msg = Retry_successful"
  by (induction mons arbitrary: w)
     (auto simp: restore_monitor_eq split_beta split: if_splits option.splits)

lemma emits_gui_disable_all:
  "Emit msg \<in> set (snd (gui_disable_all os mons w)) \<Longrightarrow>
     (\<exists>d. msg = Disabled d \<or> msg = Failed_to_disable d)"
  by (induction mons arbitrary: w)
     (auto simp: disable_monitor_eq split_beta split: if_splits)

lemma emits_gui_restore_all:
  "Emit msg \<in> set (snd (gui_restore_all os mons w)) \<Longrightarrow>
     (\<exists>d. msg = Restored d \<or> msg = Failed_to_restore_monitor d)"
  by (induction mons arbitrary: w)
     (auto simp: restore_monitor_eq split_beta split: if_splits option.splits)

lemma cli_iteration_markers:
  "(Print Disabling_secondary \<in> set (snd (snd (cli_iteration os b l w)))
      \<longleftrightarrow> b \<and> \<not> lol_was_running l)
   \<and> (Print Lol_closed \<in> set (snd (snd (cli_iteration os b l w)))
      \<longleftrightarrow> \<not> b \<and> lol_was_running l)"
  using prints_cli_disable_all [of _ os "secondary_monitors l" w]
    prints_cli_restore_all [of _ os "secondary_monitors l" w]
  by (auto simp: cli_iteration_def split_beta countdown_events)

lemma gui_iteration_markers:
  "(Emit Process_detected \<in> set (snd (snd (gui_iteration os b t w)))
      \<longleftrightarrow> b \<and> \<not> process_was_running t)
   \<and> (Emit Process_closed \<in> set (snd (snd (gui_iteration os b t w)))
      \<longleftrightarrow> \<not> b \<and> process_was_running t)"
  using emits_gui_disable_all [of _ os _ "snd (get_all_monitors os w)"]
    emits_gui_restore_all [of _ os _ "snd (get_all_monitors os w)"]
  by (auto simp: gui_iteration_def split_beta Let_def)

lemma cli_iteration_flags:
  "lol_was_running (fst (cli_iteration os b l w)) = b
   \<and> monitors_disabled (fst (cli_iteration os b l w))
       = (if b = lol_was_running l then monitors_disabled l else b)
   \<and> secondary_monitors (fst (cli_iteration os b l w)) = secondary_monitors l"
  by (auto simp: cli_iteration_def split_beta)

lemma gui_iteration_flags:
  "process_was_running (fst (gui_iteration os b t w)) = b
   \<and> thread_monitors_disabled (fst (gui_iteration os b t w))
       = (if b = process_was_running t then thread_monitors_disabled t else b)
   \<and> running (fst (gui_iteration os b t w)) = running t"
  by (auto simp: gui_iteration_def split_beta Let_def)

lemma cli_iteration_idle:
  "b = lol_was_running l \<Longrightarrow> cli_iteration os b l w = (l, w, [Sleep 2000])"
  by (auto simp: cli_iteration_def)

lemma gui_iteration_idle:
  "b = process_was_running t \<Longrightarrow> gui_iteration os b t w = (t, w, [Sleep 2000])"
  by (auto simp: gui_iteration_def)

lemma cli_loop_flags:
  "lol_was_running (fst (cli_loop os bs l w)) = last (lol_was_running l # bs)
   \<and> (monitors_disabled l = lol_was_running l \<longrightarrow>
        monitors_disabled (fst (cli_loop os bs l w)) = last (lol_was_running l # bs))
   \<and> secondary_monitors (fst (cli_loop os bs l w)) = secondary_monitors l"
proof (induction bs arbitrary: l w)
  case Nil
  show ?case by simp
next
  case (Cons b bs)
  obtain l1 w1 e1 where it: "cli_iteration os b l w = (l1, w1, e1)"
    by (cases "cli_iteration os b l w") auto
  from cli_iteration_flags [of os b l w] it
  have f: "lol_was_running l1 = b" "secondary_monitors l1 = secondary_monitors l"
    "monitors_disabled l1 = (if b = lol_was_running l then monitors_disabled l else b)"
    by simp_all
  show ?case
    using Cons.IH [of l1 w1] f by (auto simp: it split_beta)
qed

lemma gui_run_flags:
  "running t \<Longrightarrow>
   process_was_running (fst (gui_run os bs t w)) = last (process_was_running t # bs)
   \<and> (thread_monitors_disabled t = process_was_running t \<longrightarrow>
        thread_monitors_disabled (fst (gui_run os bs t w)) = last (process_was_running t # bs))
   \<and> running (fst (gui_run os bs t w))"
proof (induction bs arbitrary: t w)
  case Nil
  then show ?case by simp
next
  case (Cons b bs)
  obtain t1 w1 e1 where it: "gui_iteration os b t w = (t1, w1, e1)"
    by (cases "gui_iteration os b t w") auto
  from gui_iteration_flags [of os b t w] it Cons.prems
  have f: "process_was_running t1 = b" "running t1"
    "thread_monitors_disabled t1 = (if b = process_was_running t then thread_monitors_disabled t else b)"
    by simp_all
  show ?case
    using Cons.IH [of t1 w1] f Cons.prems by (auto simp: it split_beta)
qed

lemma cli_startup_flags:
  "lol_was_running (fst (cli_startup os w)) = False
   \<and> monitors_disabled (fst (cli_startup os w)) = False"
  by (simp add: cli_startup_def split_beta)

lemma cli_state_after_flags:
  "lol_was_running (fst (cli_state_after os bs)) = previous_sample bs
   \<and> monitors_disabled (fst (cli_state_after os bs)) = previous_sample bs"
  using cli_startup_flags [of os world_init]
    cli_loop_flags [of os bs "fst (cli_startup os world_init)" "fst (snd (cli_startup os world_init))"]
  by (simp add: cli_state_after_def previous_sample_def split_beta)

lemma gui_state_after_flags:
  "process_was_running (fst (gui_state_after os bs)) = previous_sample bs
   \<and> thread_monitors_disabled (fst (gui_state_after os bs)) = previous_sample bs
   \<and> running (fst (gui_state_after os bs))"
  using gui_run_flags [of MonitorThread_init os bs "save_monitor_settings os world_init"]
  by (simp add: gui_state_after_def previous_sample_def split_beta Let_def MonitorThread_init_def)

lemma count_cli_iteration:
  "count_list (snd (snd (cli_iteration os b l w))) (Print Disabling_secondary)
     = (if b \<and> \<not> lol_was_running l then 1 else 0)
   \<and> count_list (snd (snd (cli_iteration os b l w))) (Print Lol_closed)
     = (if \<not> b \<and> lol_was_running l then 1 else 0)"
proof -
  have d: "count_list (snd (cli_disable_all os (secondary_monitors l) w)) (Print m) = 0"
    if "m = Disabling_secondary \<or> m = Lol_closed" for m
    using prints_cli_disable_all [of m os "secondary_monitors l" w] that
    by (auto simp: count_list_0_iff)
  have r: "count_list (snd (cli_restore_all os (secondary_monitors l) w)) (Print m) = 0"
    if "m = Disabling_secondary \<or> m = Lol_closed" for m
    using prints_cli_restore_all [of m os "secondary_monitors l" w] that
    by (auto simp: count_list_0_iff)
  show ?thesis
    by (simp add: cli_iteration_def split_beta countdown_events d r)
qed

lemma count_gui_iteration:
  "count_list (snd (snd (gui_iteration os b t w))) (Emit Process_detected)
     = (if b \<and> \<not> process_was_running t then 1 else 0)
   \<and> count_list (snd (snd (gui_iteration os b t w))) (Emit Process_closed)
     = (if \<not> b \<and> process_was_running t then 1 else 0)"
proof -
  have d: "count_list (snd (gui_disable_all os mons w')) (Emit m) = 0"
    if "m = Process_detected \<or> m = Process_closed" for m mons w'
    using emits_gui_disable_all [of m os mons w'] that
    by (auto simp: count_list_0_iff)
  have r: "count_list (snd (gui_restore_all os mons w')) (Emit m) = 0"
    if "m = Process_detected \<or> m = Process_closed" for m mons w'
    using emits_gui_restore_all [of m os mons w'] that
    by (auto simp: count_list_0_iff)
  show ?thesis
    by (simp add: gui_iteration_def split_beta Let_def d r)
qed

lemma count_cli_loop:
  "count_list (snd (snd (cli_loop os bs l w))) (Print Disabling_secondary)
     = rising_edges (lol_was_running l) bs
   \<and> count_list (snd (snd (cli_loop os bs l w))) (Print Lol_closed)
     = falling_edges (lol_was_running l) bs"
proof (induction bs arbitrary: l w)
  case Nil
  show ?case by simp
next
  case (Cons b bs)
  obtain l1 w1 e1 where it: "cli_iteration os b l w = (l1, w1, e1)"
    by (cases "cli_iteration os b l w") auto
  from cli_iteration_flags [of os b l w] it have f: "lol_was_running l1 = b" by simp
  show ?case
    using Cons.IH [of l1 w1] f count_cli_iteration [of os b l w]
    by (simp add: it split_beta)
qed

lemma count_gui_run:
  "running t \<Longrightarrow>
   count_list (snd (snd (gui_run os bs t w))) (Emit Process_detected)
     = rising_edges (process_was_running t) bs
   \<and> count_list (snd (snd (gui_run os bs t w))) (Emit Process_closed)
     = falling_edges (process_was_running t) bs"
proof (induction bs arbitrary: t w)
  case Nil
  show ?case by simp
next
  case (Cons b bs)
  obtain t1 w1 e1 where it: "gui_iteration os b t w = (t1, w1, e1)"
    by (cases "gui_iteration os b t w") auto
  from gui_iteration_flags [of os b t w] it Cons.prems
  have f: "process_was_running t1 = b" "running t1" by simp_all
  show ?case
    using Cons.IH [of t1 w1] f count_gui_iteration [of os b t w] Cons.prems
    by (simp add: it split_beta)
qed

lemma rising_edges_all_true: "rising_edges prev (replicate n True) = (if n = 0 \<or> prev then 0 else 1)"
proof (induction n arbitrary: prev)
  case 0
  show ?case by simp
next
  case (Suc n)
  show ?case by (simp add: Suc.IH)
qed

section \<open>Retries\<close>

lemma restore_requests_Cons:
  "restore_requests ms (m # mons) =
     (case map_of ms (name m) of
        None \<Rightarrow> restore_requests ms mons
      | Some saved \<Rightarrow> (name m, saved) # restore_requests ms mons)"
  by (simp add: restore_requests_def List.map_filter_simps split: option.splits)

lemma restore_requests_Nil: "restore_requests ms [] = []"
  by (simp add: restore_requests_def List.map_filter_simps)

lemma cli_disable_all_policy:
  "filter is_call_or_sleep (snd (cli_disable_all os mons w))
     = retry_once_policy os (disable_requests mons) (cds_calls w)"
  by (induction mons arbitrary: w)
     (simp_all add: disable_requests_def disable_monitor_eq split_beta)

lemma cli_restore_all_policy:
  "filter is_call_or_sleep (snd (cli_restore_all os mons w))
     = retry_once_policy os (restore_requests (monitor_settings w) mons) (cds_calls w)"
proof (induction mons arbitrary: w)
  case Nil
  show ?case by (simp add: restore_requests_Nil)
next
  case (Cons m mons)
  show ?case
  proof (cases "map_of (monitor_settings w) (name m)")
    case None
    then show ?thesis using Cons.IH [of w] by (simp add: restore_requests_Cons)
  next
    case (Some saved)
    then show ?thesis
      using Cons.IH [of "w\<lparr>cds_calls := cds_calls w + 1\<rparr>"]
        Cons.IH [of "w\<lparr>cds_calls := cds_calls w + 2\<rparr>"]
      by (simp add: restore_requests_Cons restore_monitor_eq split_beta)
  qed
qed

lemma gui_disable_all_policy:
  "filter is_call_or_sleep (snd (gui_disable_all os mons w))
     = single_attempt_policy (disable_requests mons)"
  by (induction mons arbitrary: w)
     (simp_all add: disable_requests_def single_attempt_policy_def disable_monitor_eq split_beta)

lemma gui_restore_all_policy:
  "filter is_call_or_sleep (snd (gui_restore_all os mons w))
     = single_attempt_policy (restore_requests (monitor_settings w) mons)"
proof (induction mons arbitrary: w)
  case Nil
  show ?case by (simp add: restore_requests_Nil single_attempt_policy_def)
next
  case (Cons m mons)
  show ?case
    using Cons.IH [of w] Cons.IH [of "w\<lparr>cds_calls := cds_calls w + 1\<rparr>"]
    by (simp add: restore_requests_Cons restore_monitor_eq split_beta single_attempt_policy_def
        split: option.splits)
qed

lemma gui_stop_restore_all_policy:
  "filter is_call_or_sleep (snd (gui_stop_restore_all os mons w))
     = single_attempt_policy (restore_requests (monitor_settings w) mons)"
proof (induction mons arbitrary: w)
  case Nil
  show ?case by (simp add: restore_requests_Nil single_attempt_policy_def)
next
  case (Cons m mons)
  show ?case
    using Cons.IH [of w] Cons.IH [of "w\<lparr>cds_calls := cds_calls w + 1\<rparr>"]
    by (simp add: restore_requests_Cons restore_monitor_eq split_beta single_attempt_policy_def
        split: option.splits)
qed

lemma cli_exit_restore_all_policy:
  "filter is_call_or_sleep (snd (cli_exit_restore_all os mons w))
     = single_attempt_policy (restore_requests (monitor_settings w) mons)"
proof (induction mons arbitrary: w)
  case Nil
  show ?case by (simp add: restore_requests_Nil single_attempt_policy_def)
next
  case (Cons m mons)
  show ?case
    using Cons.IH [of w] Cons.IH [of "w\<lparr>cds_calls := cds_calls w + 1\<rparr>"]
    by (simp add: restore_requests_Cons restore_monitor_eq split_beta single_attempt_policy_def
        split: option.splits)
qed

lemma retry_once_policy_counts:
  "length (filter is_call (retry_once_policy os requests k))
     = length requests + count_list (retry_once_policy os requests k) (Sleep 500)
   \<and> count_list (retry_once_policy os requests k) (Sleep 500) \<le> length requests"
proof (induction requests arbitrary: k)
  case Nil
  show ?case by simp
next
  case (Cons r requests)
  obtain nm dm where r: "r = (nm, dm)" by (cases r)
  show ?case
    using Cons.IH [of "k + 1"] Cons.IH [of "k + 2"] by (simp add: r)
qed

lemma cli_disable_all_reports:
  "length (filter is_failure_report (snd (cli_disable_all os mons w)))
     = count_list (snd (cli_disable_all os mons w)) (Sleep 500)"
  by (induction mons arbitrary: w) (simp_all add: disable_monitor_eq split_beta)

lemma cli_restore_all_reports:
  "length (filter is_failure_report (snd (cli_restore_all os mons w)))
     = count_list (snd (cli_restore_all os mons w)) (Sleep 500)"
  by (induction mons arbitrary: w)
     (simp_all add: restore_monitor_eq split_beta split: option.splits)

lemma count_list_filter_sleep:
  "count_list (filter is_call_or_sleep es) (Sleep n) = count_list es (Sleep n)"
proof (induction es)
  case Nil
  show ?case by simp
next
  case (Cons e es)
  then show ?case by (cases e) simp_all
qed

lemma filter_call_of_filter:
  "filter is_call (filter is_call_or_sleep es) = filter is_call es"
proof (induction es)
  case Nil
  show ?case by simp
next
  case (Cons e es)
  then show ?case by (cases e) simp_all
qed

lemma length_restore_requests: "length (restore_requests ms mons) \<le> length mons"
  by (induction mons) (simp_all add: restore_requests_Nil restore_requests_Cons split: option.splits)


lemmas fixture_defs = os_steady_def os_hotplug_def os_mode_change_def os_unplug_def
  os_fail_first_def os_fail_always_def table_single_def table_dual_def table_dual_low_def
  display1_def display2_def monitor1_def monitor2_def world_init_def MonitorThread_init_def

lemmas run_defs = cli_main_def gui_app_def cli_state_after_def cli_loop_events_def
  gui_state_after_def gui_loop_events_def cli_startup_def cli_save_monitor_settings_def
  save_monitor_settings_def cli_iteration_def gui_iteration_def cli_interrupt_def gui_stop_def
  get_all_monitors_eq disable_monitor_eq restore_monitor_eq countdown_events calls_def
  DISP_CHANGE_SUCCESSFUL_def split_beta Let_def

text \<open>
  Claim C3, as amended. In the polling loop of the console variant, a disable pass and a
  restore pass follow the retry-once policy: one mode-change call for each display of the
  pass (a restore pass takes the displays that have a stored mode) and, when that call
  does not return success, a failure line, a sleep of half a second and exactly one more
  call for the same display, after which the pass goes on with the next display whatever
  the second call returned. There are as many failure lines as retries, a pass makes at
  most two calls for each display, and a failed retry prints nothing more. The passes of
  the tray variant, its restore at \<^verbatim>\<open>stop\<close>, and the restore of the console variant at
  exit make exactly one call for each display and never retry.
\<close>

theorem retry_policy_of_passes:
  "filter is_call_or_sleep (snd (cli_disable_all os mons w))
     = retry_once_policy os (disable_requests mons) (cds_calls w)
   \<and> filter is_call_or_sleep (snd (cli_restore_all os mons w))
     = retry_once_policy os (restore_requests (monitor_settings w) mons) (cds_calls w)
   \<and> length (filter is_failure_report (snd (cli_disable_all os mons w)))
     = count_list (snd (cli_disable_all os mons w)) (Sleep 500)
   \<and> length (filter is_failure_report (snd (cli_restore_all os mons w)))
     = count_list (snd (cli_restore_all os mons w)) (Sleep 500)
   \<and> length (calls (snd (cli_disable_all os mons w)))
     = length mons + count_list (snd (cli_disable_all os mons w)) (Sleep 500)
   \<and> count_list (snd (cli_disable_all os mons w)) (Sleep 500) \<le> length mons
   \<and> length (calls (snd (cli_restore_all os mons w))) \<le> 2 * length mons
   \<and> filter is_call_or_sleep (snd (gui_disable_all os mons w))
     = single_attempt_policy (disable_requests mons)
   \<and> filter is_call_or_sleep (snd (gui_restore_all os mons w))
     = single_attempt_policy (restore_requests (monitor_settings w) mons)
   \<and> filter is_call_or_sleep (snd (gui_stop_restore_all os mons w))
     = single_attempt_policy (restore_requests (monitor_settings w) mons)
   \<and> filter is_call_or_sleep (snd (cli_exit_restore_all os mons w))
     = single_attempt_policy (restore_requests (monitor_settings w) mons)"
proof -
  let ?d = "snd (cli_disable_all os mons w)"
  let ?r = "snd (cli_restore_all os mons w)"
  have d: "filter is_call_or_sleep ?d = retry_once_policy os (disable_requests mons) (cds_calls w)"
    by (rule cli_disable_all_policy)
  have r: "filter is_call_or_sleep ?r
      = retry_once_policy os (restore_requests (monitor_settings w) mons) (cds_calls w)"
    by (rule cli_restore_all_policy)
  have dc: "length (calls ?d) = length mons + count_list ?d (Sleep 500)
      \<and> count_list ?d (Sleep 500) \<le> length mons"
    using retry_once_policy_counts [of os "disable_requests mons" "cds_calls w"]
      filter_call_of_filter [of ?d] count_list_filter_sleep [of ?d 500]
    by (simp add: d calls_def disable_requests_def)
  have rc: "length (calls ?r) \<le> 2 * length mons"
    using retry_once_policy_counts [of os "restore_requests (monitor_settings w) mons" "cds_calls w"]
      filter_call_of_filter [of ?r] length_restore_requests [of "monitor_settings w" mons]
    by (simp add: r calls_def)
  show ?thesis
    using d r dc rc
    by (simp add: cli_disable_all_reports cli_restore_all_reports gui_disable_all_policy
        gui_restore_all_policy gui_stop_restore_all_policy cli_exit_restore_all_policy)
qed

theorem retry_policy_of_passes_witness:
  "filter is_call_or_sleep (snd (cli_disable_all os_fail_first [monitor2] world_init))
     = [ChangeDisplaySettingsEx ''DISPLAY2'' disable_devmode 0, Sleep 500,
        ChangeDisplaySettingsEx ''DISPLAY2'' disable_devmode 0]
   \<and> filter is_call_or_sleep (snd (cli_disable_all os_fail_always [monitor2] world_init))
     = [ChangeDisplaySettingsEx ''DISPLAY2'' disable_devmode 0, Sleep 500,
        ChangeDisplaySettingsEx ''DISPLAY2'' disable_devmode 0]
   \<and> filter is_call_or_sleep (snd (cli_disable_all os_steady [monitor2] world_init))
     = [ChangeDisplaySettingsEx ''DISPLAY2'' disable_devmode 0]"
  using retry_policy_of_passes [of os_fail_first "[monitor2]" world_init]
    retry_policy_of_passes [of os_fail_always "[monitor2]" world_init]
    retry_policy_of_passes [of os_steady "[monitor2]" world_init]
  by (simp add: disable_requests_def fixture_defs DISP_CHANGE_SUCCESSFUL_def)

text \<open>
  The claim as stated fails in the tray variant: with one secondary display whose disable
  call fails, the disable pass of \<^verbatim>\<open>MonitorThread.run\<close> makes that single call, emits
  the failure and goes on; there is no second call.
\<close>

theorem gui_no_retry_counterexample:
  "gui_loop_events os_fail_always [True]
     = [Emit Process_detected, ChangeDisplaySettingsEx ''DISPLAY2'' disable_devmode 0,
        Emit (Failed_to_disable ''Desk monitor''), Emit Monitoring_active, Sleep 2000]
   \<and> cds_result os_fail_always 0 ''DISPLAY2'' disable_devmode 0 \<noteq> DISP_CHANGE_SUCCESSFUL"
  by (simp add: run_defs fixture_defs)

section \<open>The displays that the passes act on\<close>

lemma call_targets_append: "call_targets (xs @ ys) = call_targets xs @ call_targets ys"
proof (induction xs)
  case Nil
  show ?case by simp
next
  case (Cons e xs)
  then show ?case by (cases e) simp_all
qed

lemma call_targets_filter: "call_targets (filter is_call_or_sleep es) = call_targets es"
proof (induction es)
  case Nil
  show ?case by simp
next
  case (Cons e es)
  then show ?case by (cases e) simp_all
qed

lemma targets_of_projection:
  "filter is_call_or_sleep es = p \<Longrightarrow> call_targets es = call_targets p"
  using call_targets_filter [of es] by simp

lemma targets_single_attempt:
  "call_targets (single_attempt_policy requests) = map fst requests"
  by (induction requests) (simp_all add: single_attempt_policy_def split_beta)

lemma targets_retry_once:
  "set (call_targets (retry_once_policy os requests k)) = fst ` set requests"
proof (induction requests arbitrary: k)
  case Nil
  show ?case by simp
next
  case (Cons r requests)
  obtain nm dm where r: "r = (nm, dm)" by (cases r)
  show ?case
    using Cons.IH [of "k + 1"] Cons.IH [of "k + 2"] by (simp add: r)
qed

lemma names_disable_requests: "fst ` set (disable_requests mons) = name ` set mons"
  by (force simp: disable_requests_def)

lemma names_restore_requests:
  "fst ` set (restore_requests ms mons) = {n \<in> name ` set mons. map_of ms n \<noteq> None}"
  by (induction mons)
     (auto simp: restore_requests_Nil restore_requests_Cons split: option.splits)

lemma targets_cli_disable_all:
  "set (call_targets (snd (cli_disable_all os mons w))) = name ` set mons"
  using targets_of_projection [OF cli_disable_all_policy, of os mons w]
  by (simp add: targets_retry_once names_disable_requests)

lemma targets_cli_restore_all:
  "set (call_targets (snd (cli_restore_all os mons w)))
     = {n \<in> name ` set mons. map_of (monitor_settings w) n \<noteq> None}"
  using targets_of_projection [OF cli_restore_all_policy, of os mons w]
  by (simp add: targets_retry_once names_restore_requests)

lemma targets_cli_exit_restore_all:
  "set (call_targets (snd (cli_exit_restore_all os mons w)))
     = {n \<in> name ` set mons. map_of (monitor_settings w) n \<noteq> None}"
  using targets_of_projection [OF cli_exit_restore_all_policy, of os mons w]
  by (simp add: targets_single_attempt names_restore_requests)

lemma targets_gui_disable_all:
  "set (call_targets (snd (gui_disable_all os mons w))) = name ` set mons"
  using targets_of_projection [OF gui_disable_all_policy, of os mons w]
  by (simp add: targets_single_attempt names_disable_requests)

lemma targets_gui_restore_all:
  "set (call_targets (snd (gui_restore_all os mons w)))
     = {n \<in> name ` set mons. map_of (monitor_settings w) n \<noteq> None}"
  using targets_of_projection [OF gui_restore_all_policy, of os mons w]
  by (simp add: targets_single_attempt names_restore_requests)

lemma targets_gui_stop_restore_all:
  "set (call_targets (snd (gui_stop_restore_all os mons w)))
     = {n \<in> name ` set mons. map_of (monitor_settings w) n \<noteq> None}"
  using targets_of_projection [OF gui_stop_restore_all_policy, of os mons w]
  by (simp add: targets_single_attempt names_restore_requests)

lemma targets_cli_iteration:
  "set (call_targets (snd (snd (cli_iteration os b l w)))) \<subseteq> name ` set (secondary_monitors l)"
  by (auto simp: cli_iteration_def split_beta call_targets_append countdown_events
      targets_cli_disable_all targets_cli_restore_all)

lemma targets_cli_loop:
  "set (call_targets (snd (snd (cli_loop os bs l w)))) \<subseteq> name ` set (secondary_monitors l)"
proof (induction bs arbitrary: l w)
  case Nil
  show ?case by simp
next
  case (Cons b bs)
  obtain l1 w1 e1 where it: "cli_iteration os b l w = (l1, w1, e1)"
    by (cases "cli_iteration os b l w") auto
  from cli_iteration_flags [of os b l w] it
  have sm: "secondary_monitors l1 = secondary_monitors l" by simp
  from targets_cli_iteration [of os b l w] it
  have e1: "set (call_targets e1) \<subseteq> name ` set (secondary_monitors l)" by simp
  show ?case
    using Cons.IH [of l1 w1] e1 sm by (simp add: it split_beta call_targets_append)
qed

lemma targets_cli_interrupt:
  "set (call_targets (snd (cli_interrupt os l w))) \<subseteq> name ` set (secondary_monitors l)"
  by (auto simp: cli_interrupt_def split_beta call_targets_append targets_cli_exit_restore_all)

lemma targets_gui_iteration:
  "set (call_targets (snd (snd (gui_iteration os b t w)))) \<subseteq> enumerated_names os (enum_calls w)"
  by (auto simp: gui_iteration_def split_beta Let_def call_targets_append get_all_monitors_eq
      targets_gui_disable_all targets_gui_restore_all enumerated_names_def)

lemma targets_gui_run:
  "(\<And>k. enumerated_names os k \<subseteq> S) \<Longrightarrow> set (call_targets (snd (snd (gui_run os bs t w)))) \<subseteq> S"
proof (induction bs arbitrary: t w)
  case Nil
  show ?case by simp
next
  case (Cons b bs)
  obtain t1 w1 e1 where it: "gui_iteration os b t w = (t1, w1, e1)"
    by (cases "gui_iteration os b t w") auto
  from targets_gui_iteration [of os b t w] it Cons.prems [of "enum_calls w"]
  have e1: "set (call_targets e1) \<subseteq> S" by auto
  show ?case
    using Cons.IH [of t1 w1, OF Cons.prems] e1 by (simp add: it split_beta call_targets_append)
qed

lemma targets_gui_stop:
  "set (call_targets (snd (snd (gui_stop os t w)))) \<subseteq> enumerated_names os (enum_calls w)"
  by (auto simp: gui_stop_def split_beta Let_def get_all_monitors_eq
      targets_gui_stop_restore_all enumerated_names_def)

lemma cli_list_monitors_secondary:
  "fst (snd (cli_list_monitors i mons pm sm)) = sm @ filter (\<lambda>m. \<not> is_primary m) mons"
  by (induction mons arbitrary: i pm sm) (simp_all add: split_beta)

lemma cli_startup_state:
  "secondary_monitors (fst (cli_startup os w))
     = filter (\<lambda>m. \<not> is_primary m) (get_all_monitors_loop (display_table os (enum_calls w + 1)) 0 [])
   \<and> enum_calls (fst (snd (cli_startup os w))) = enum_calls w + 2
   \<and> cds_calls (fst (snd (cli_startup os w))) = cds_calls w"
  by (simp add: cli_startup_def cli_save_monitor_settings_def save_monitor_settings_def
      get_all_monitors_eq split_beta Let_def cli_list_monitors_secondary)

lemma dom_store_settings:
  "dom (map_of (store_settings mons ms)) = dom (map_of ms) \<union> name ` set mons"
  using keys_store_settings [of mons ms] by (auto simp: dom_def)

lemma cli_state_after_eq:
  "cli_state_after os bs =
     (fst (cli_loop os bs (fst (cli_startup os world_init)) (fst (snd (cli_startup os world_init)))),
      fst (snd (cli_loop os bs (fst (cli_startup os world_init)) (fst (snd (cli_startup os world_init))))))"
  by (simp add: cli_state_after_def split_beta)

lemma cli_state_after_snapshot:
  "monitor_settings (snd (cli_state_after os bs))
     = store_settings (get_all_monitors_loop (display_table os 0) 0 []) []
   \<and> dom (map_of (monitor_settings (snd (cli_state_after os bs)))) = enumerated_names os 0
   \<and> secondary_monitors (fst (cli_state_after os bs))
     = filter (\<lambda>m. \<not> is_primary m) (get_all_monitors_loop (display_table os 1) 0 [])"
  using settings_cli_startup [of os world_init] cli_startup_state [of os world_init]
    cli_loop_flags [of os bs "fst (cli_startup os world_init)" "fst (snd (cli_startup os world_init))"]
  by (simp add: cli_state_after_eq settings_cli_loop dom_store_settings enumerated_names_def
      world_init_def)

lemma gui_state_after_snapshot:
  "monitor_settings (snd (gui_state_after os bs))
     = store_settings (get_all_monitors_loop (display_table os 0) 0 []) []
   \<and> dom (map_of (monitor_settings (snd (gui_state_after os bs)))) = enumerated_names os 0"
  by (simp add: gui_state_after_def split_beta Let_def settings_gui_run save_monitor_settings_def
      get_all_monitors_eq dom_store_settings enumerated_names_def world_init_def)


lemma targets_cli_list_monitors:
  "call_targets (snd (snd (cli_list_monitors i mons pm sm))) = []"
  by (induction mons arbitrary: i pm sm) (simp_all add: split_beta)

lemma targets_cli_startup: "call_targets (snd (snd (cli_startup os w))) = []"
  by (simp add: cli_startup_def cli_save_monitor_settings_def split_beta Let_def
      call_targets_append targets_cli_list_monitors)

lemma cli_main_eq:
  "cli_main os bs =
     (fst (cli_state_after os bs),
      fst (cli_interrupt os (fst (cli_state_after os bs)) (snd (cli_state_after os bs))),
      snd (snd (cli_startup os world_init)) @ cli_loop_events os bs
        @ snd (cli_interrupt os (fst (cli_state_after os bs)) (snd (cli_state_after os bs))))"
  by (simp add: cli_main_def cli_state_after_def cli_loop_events_def split_beta)

lemma gui_app_eq:
  "gui_app os bs =
     (fst (gui_stop os (fst (gui_state_after os bs)) (snd (gui_state_after os bs))),
      fst (snd (gui_stop os (fst (gui_state_after os bs)) (snd (gui_state_after os bs)))),
      gui_loop_events os bs
        @ snd (snd (gui_stop os (fst (gui_state_after os bs)) (snd (gui_state_after os bs)))))"
  by (simp add: gui_app_def gui_state_after_def gui_loop_events_def split_beta Let_def)

lemma cli_loop_events_eq:
  "cli_loop_events os bs =
     snd (snd (cli_loop os bs (fst (cli_startup os world_init)) (fst (snd (cli_startup os world_init)))))"
  by (simp add: cli_loop_events_def split_beta)

lemma gui_loop_events_eq:
  "gui_loop_events os bs =
     snd (snd (gui_run os bs MonitorThread_init (save_monitor_settings os world_init)))"
  by (simp add: gui_loop_events_def split_beta Let_def)

text \<open>
  Claim C1, as amended. In every state that either variant reaches, the keys of the
  snapshot are the identifiers that the first enumeration of the run listed. The disable
  pass does not consult the snapshot: it acts on every secondary display of its list (the
  console variant's list comes from the second enumeration of the run, made at startup;
  the tray variant enumerates afresh in each pass). So every display that a pass has
  acted on has a snapshot entry provided the enumerations used for the passes list only
  identifiers that the first enumeration listed: the second one for the console variant,
  all of them for the tray variant.
\<close>

theorem disabled_displays_have_snapshot:
  "dom (map_of (monitor_settings (snd (cli_state_after os bs)))) = enumerated_names os 0
   \<and> dom (map_of (monitor_settings (snd (gui_state_after os bs)))) = enumerated_names os 0
   \<and> (enumerated_names os 1 \<subseteq> enumerated_names os 0 \<longrightarrow>
        set (call_targets (cli_loop_events os bs))
          \<subseteq> dom (map_of (monitor_settings (snd (cli_state_after os bs))))
      \<and> set (call_targets (snd (snd (cli_main os bs))))
          \<subseteq> dom (map_of (monitor_settings (fst (snd (cli_main os bs))))))
   \<and> ((\<forall>k. enumerated_names os k \<subseteq> enumerated_names os 0) \<longrightarrow>
        set (call_targets (gui_loop_events os bs))
          \<subseteq> dom (map_of (monitor_settings (snd (gui_state_after os bs))))
      \<and> set (call_targets (snd (snd (gui_app os bs))))
          \<subseteq> dom (map_of (monitor_settings (fst (snd (gui_app os bs))))))"
proof -
  let ?l = "fst (cli_state_after os bs)" and ?w = "snd (cli_state_after os bs)"
  let ?t = "fst (gui_state_after os bs)" and ?v = "snd (gui_state_after os bs)"
  have dc: "dom (map_of (monitor_settings ?w)) = enumerated_names os 0"
    by (rule cli_state_after_snapshot [THEN conjunct2, THEN conjunct1])
  have sec: "secondary_monitors ?l
      = filter (\<lambda>m. \<not> is_primary m) (get_all_monitors_loop (display_table os 1) 0 [])"
    using cli_state_after_snapshot [of os bs, THEN conjunct2, THEN conjunct2] by simp
  have dg: "dom (map_of (monitor_settings ?v)) = enumerated_names os 0"
    by (rule gui_state_after_snapshot [THEN conjunct2])
  have sub: "name ` set (secondary_monitors ?l) \<subseteq> enumerated_names os 1"
    by (auto simp: sec enumerated_names_def)
  have loop_c: "set (call_targets (cli_loop_events os bs)) \<subseteq> name ` set (secondary_monitors ?l)"
    using targets_cli_loop [of os bs "fst (cli_startup os world_init)"
        "fst (snd (cli_startup os world_init))"]
      cli_loop_flags [of os bs "fst (cli_startup os world_init)"
        "fst (snd (cli_startup os world_init))"]
    by (simp add: cli_loop_events_eq cli_state_after_eq)
  have exit_c: "set (call_targets (snd (cli_interrupt os ?l ?w))) \<subseteq> name ` set (secondary_monitors ?l)"
    by (rule targets_cli_interrupt)
  have main_c: "set (call_targets (snd (snd (cli_main os bs)))) \<subseteq> name ` set (secondary_monitors ?l)"
    using loop_c exit_c by (simp add: cli_main_eq call_targets_append targets_cli_startup)
  have main_s: "monitor_settings (fst (snd (cli_main os bs))) = monitor_settings ?w"
    by (simp add: cli_main_eq settings_cli_interrupt)
  have cli: "set (call_targets (cli_loop_events os bs)) \<subseteq> dom (map_of (monitor_settings ?w))
      \<and> set (call_targets (snd (snd (cli_main os bs))))
          \<subseteq> dom (map_of (monitor_settings (fst (snd (cli_main os bs)))))"
    if "enumerated_names os 1 \<subseteq> enumerated_names os 0"
    using that sub loop_c main_c by (simp only: main_s dc) blast
  have gui: "set (call_targets (gui_loop_events os bs)) \<subseteq> dom (map_of (monitor_settings ?v))
      \<and> set (call_targets (snd (snd (gui_app os bs))))
          \<subseteq> dom (map_of (monitor_settings (fst (snd (gui_app os bs)))))"
    if h: "\<forall>k. enumerated_names os k \<subseteq> enumerated_names os 0"
  proof -
    have loop_g: "set (call_targets (gui_loop_events os bs)) \<subseteq> enumerated_names os 0"
      using targets_gui_run [of os "enumerated_names os 0" bs MonitorThread_init
          "save_monitor_settings os world_init"] h
      by (simp add: gui_loop_events_eq)
    have stop_g: "set (call_targets (snd (snd (gui_stop os ?t ?v)))) \<subseteq> enumerated_names os 0"
      using targets_gui_stop [of os ?t ?v] h by blast
    have app_s: "monitor_settings (fst (snd (gui_app os bs))) = monitor_settings ?v"
      by (simp add: gui_app_eq settings_gui_stop)
    have app_t: "call_targets (snd (snd (gui_app os bs)))
        = call_targets (gui_loop_events os bs) @ call_targets (snd (snd (gui_stop os ?t ?v)))"
      by (simp add: gui_app_eq call_targets_append)
    show ?thesis
      unfolding app_s dg app_t using loop_g stop_g by simp
  qed
  show ?thesis using dc dg cli gui by blast
qed

theorem disabled_displays_have_snapshot_witness:
  "(\<forall>k. enumerated_names os_steady k \<subseteq> enumerated_names os_steady 0)
   \<and> set (call_targets (snd (snd (gui_app os_steady [True]))))
       \<subseteq> dom (map_of (monitor_settings (fst (snd (gui_app os_steady [True])))))
   \<and> call_targets (snd (snd (gui_app os_steady [True]))) = [''DISPLAY2'', ''DISPLAY2'']
   \<and> dom (map_of (monitor_settings (fst (snd (gui_app os_steady [True])))))
       = {''DISPLAY1'', ''DISPLAY2''}"
proof -
  have h: "\<forall>k. enumerated_names os_steady k \<subseteq> enumerated_names os_steady 0"
    by (simp add: enumerated_names_def os_steady_def)
  have "set (call_targets (snd (snd (gui_app os_steady [True]))))
          \<subseteq> dom (map_of (monitor_settings (fst (snd (gui_app os_steady [True])))))"
    using disabled_displays_have_snapshot [of os_steady "[True]"] h by blast
  moreover have "call_targets (snd (snd (gui_app os_steady [True]))) = [''DISPLAY2'', ''DISPLAY2'']"
    by (simp add: run_defs fixture_defs)
  moreover have "dom (map_of (monitor_settings (fst (snd (gui_app os_steady [True])))))
       = {''DISPLAY1'', ''DISPLAY2''}"
    by (auto simp: run_defs fixture_defs)
  ultimately show ?thesis using h by blast
qed

text \<open>
  The claim as stated fails: when the second display is attached after the tray variant
  has started, the first rising edge disables it although the snapshot, taken at startup,
  has no entry for it.
\<close>

theorem disabled_without_snapshot_counterexample:
  "thread_monitors_disabled (fst (gui_state_after os_hotplug [True]))
   \<and> calls (gui_loop_events os_hotplug [True])
       = [ChangeDisplaySettingsEx ''DISPLAY2'' disable_devmode 0]
   \<and> map_of (monitor_settings (snd (gui_state_after os_hotplug [True]))) ''DISPLAY2'' = None
   \<and> monitor_settings (snd (gui_state_after os_hotplug [True])) = [(''DISPLAY1'', mode_panel)]"
  by (simp add: run_defs fixture_defs)

section \<open>The mode-change calls of an iteration and of the shutdown\<close>

lemma calls_append: "calls (xs @ ys) = calls xs @ calls ys"
  by (simp add: calls_def)

lemma calls_simps:
  "calls [] = []"
  "calls (ChangeDisplaySettingsEx nm dm fl # es) = ChangeDisplaySettingsEx nm dm fl # calls es"
  "calls (Sleep n # es) = calls es"
  "calls (Print msg # es) = calls es"
  "calls (Emit msg # es) = calls es"
  by (simp_all add: calls_def)

lemma calls_of_projection:
  "filter is_call_or_sleep es = p \<Longrightarrow> calls es = filter is_call p"
  using filter_call_of_filter [of es] by (simp add: calls_def)

lemma calls_single_attempt:
  "filter is_call (single_attempt_policy requests) = single_attempt_policy requests"
  by (induction requests) (simp_all add: single_attempt_policy_def split_beta)

lemma calls_cli_disable_all:
  "calls (snd (cli_disable_all os mons w))
     = filter is_call (retry_once_policy os (disable_requests mons) (cds_calls w))"
  by (rule calls_of_projection [OF cli_disable_all_policy])

lemma calls_cli_restore_all:
  "calls (snd (cli_restore_all os mons w))
     = filter is_call (retry_once_policy os (restore_requests (monitor_settings w) mons) (cds_calls w))"
  by (rule calls_of_projection [OF cli_restore_all_policy])

lemma calls_cli_exit_restore_all:
  "calls (snd (cli_exit_restore_all os mons w))
     = single_attempt_policy (restore_requests (monitor_settings w) mons)"
  using calls_of_projection [OF cli_exit_restore_all_policy, of os mons w]
  by (simp add: calls_single_attempt)

lemma calls_gui_disable_all:
  "calls (snd (gui_disable_all os mons w)) = single_attempt_policy (disable_requests mons)"
  using calls_of_projection [OF gui_disable_all_policy, of os mons w]
  by (simp add: calls_single_attempt)

lemma calls_gui_restore_all:
  "calls (snd (gui_restore_all os mons w))
     = single_attempt_policy (restore_requests (monitor_settings w) mons)"
  using calls_of_projection [OF gui_restore_all_policy, of os mons w]
  by (simp add: calls_single_attempt)

lemma calls_gui_stop_restore_all:
  "calls (snd (gui_stop_restore_all os mons w))
     = single_attempt_policy (restore_requests (monitor_settings w) mons)"
  using calls_of_projection [OF gui_stop_restore_all_policy, of os mons w]
  by (simp add: calls_single_attempt)

lemma calls_cli_interrupt:
  "calls (snd (cli_interrupt os l w))
     = (if monitors_disabled l
        then single_attempt_policy (restore_requests (monitor_settings w) (secondary_monitors l))
        else [])"
  using calls_cli_exit_restore_all [of os "secondary_monitors l" w]
  by (simp add: cli_interrupt_def split_beta calls_append calls_simps)

lemma calls_gui_stop:
  "calls (snd (snd (gui_stop os t w)))
     = (if thread_monitors_disabled t
        then single_attempt_policy (restore_requests (monitor_settings w)
               (filter (\<lambda>m. \<not> is_primary m)
                  (get_all_monitors_loop (display_table os (enum_calls w)) 0 [])))
        else [])"
  by (simp add: gui_stop_def split_beta Let_def get_all_monitors_eq calls_gui_stop_restore_all
      calls_simps)

lemma request_in_restore_requests:
  "m \<in> set mons \<Longrightarrow> map_of ms (name m) = Some saved
     \<Longrightarrow> ChangeDisplaySettingsEx (name m) saved 0
           \<in> set (single_attempt_policy (restore_requests ms mons))"
  by (induction mons)
     (auto simp: restore_requests_Nil restore_requests_Cons single_attempt_policy_def
        split: option.splits)

lemma calls_cli_iteration:
  "calls (snd (snd (cli_iteration os b l w)))
     = (if b \<and> \<not> lol_was_running l
        then filter is_call (retry_once_policy os (disable_requests (secondary_monitors l)) (cds_calls w))
        else if \<not> b \<and> lol_was_running l
        then filter is_call (retry_once_policy os
               (restore_requests (monitor_settings w) (secondary_monitors l)) (cds_calls w))
        else [])"
  using calls_cli_disable_all [of os "secondary_monitors l" w]
    calls_cli_restore_all [of os "secondary_monitors l" w]
  by (simp add: cli_iteration_def split_beta calls_append countdown_events calls_simps)

lemma calls_gui_iteration:
  "calls (snd (snd (gui_iteration os b t w)))
     = (if b \<and> \<not> process_was_running t
        then single_attempt_policy (disable_requests
               (filter (\<lambda>m. \<not> is_primary m)
                  (get_all_monitors_loop (display_table os (enum_calls w)) 0 [])))
        else if \<not> b \<and> process_was_running t
        then single_attempt_policy (restore_requests (monitor_settings w)
               (filter (\<lambda>m. \<not> is_primary m)
                  (get_all_monitors_loop (display_table os (enum_calls w)) 0 [])))
        else [])"
  by (simp add: gui_iteration_def split_beta Let_def get_all_monitors_eq calls_append
        calls_gui_disable_all calls_gui_restore_all calls_simps)

lemma enum_calls_cli_disable_all:
  "enum_calls (fst (cli_disable_all os mons w)) = enum_calls w"
  by (induction mons arbitrary: w) (simp_all add: disable_monitor_eq split_beta)

lemma enum_calls_cli_restore_all:
  "enum_calls (fst (cli_restore_all os mons w)) = enum_calls w"
  by (induction mons arbitrary: w)
     (simp_all add: restore_monitor_eq split_beta split: option.splits)

lemma enum_calls_gui_disable_all:
  "enum_calls (fst (gui_disable_all os mons w)) = enum_calls w"
  by (induction mons arbitrary: w) (simp_all add: disable_monitor_eq split_beta)

lemma enum_calls_cli_iteration:
  "enum_calls (fst (snd (cli_iteration os b l w))) = enum_calls w"
  by (simp add: cli_iteration_def split_beta enum_calls_cli_disable_all enum_calls_cli_restore_all)

lemma enum_calls_cli_loop:
  "enum_calls (fst (snd (cli_loop os bs l w))) = enum_calls w"
  by (induction bs arbitrary: l w) (simp_all add: split_beta enum_calls_cli_iteration)

lemma enum_calls_gui_rising:
  "b \<and> \<not> process_was_running t \<Longrightarrow>
     enum_calls (fst (snd (gui_iteration os b t w))) = enum_calls w + 1"
  by (simp add: gui_iteration_def split_beta Let_def get_all_monitors_eq enum_calls_gui_disable_all)

lemma cli_state_after_enum_calls: "enum_calls (snd (cli_state_after os bs)) = 2"
  using cli_startup_state [of os world_init]
  by (simp add: cli_state_after_eq enum_calls_cli_loop world_init_def)

lemma targets_cli_iteration_rising:
  "b \<and> \<not> lol_was_running l \<Longrightarrow>
     set (call_targets (snd (snd (cli_iteration os b l w)))) = name ` set (secondary_monitors l)"
  by (simp add: cli_iteration_def split_beta call_targets_append countdown_events
      targets_cli_disable_all)

lemma targets_gui_iteration_rising:
  "b \<and> \<not> process_was_running t \<Longrightarrow>
     set (call_targets (snd (snd (gui_iteration os b t w))))
       = name ` set (filter (\<lambda>m. \<not> is_primary m)
                      (get_all_monitors_loop (display_table os (enum_calls w)) 0 []))"
  by (simp add: gui_iteration_def split_beta Let_def call_targets_append get_all_monitors_eq
      targets_gui_disable_all)

text \<open>
  Claim C5. Take either variant after startup and any presence samples \<open>bs\<close>, and give
  it one more sample \<open>b\<close>. The iteration runs a disable pass exactly when \<open>b\<close> is true
  and the previous sample was false: it announces the pass, sets the "disabled" flag and
  makes the mode-change calls of the pass, which are the disable requests for every
  secondary display (of the startup list, with the retry, in the console variant; of a
  fresh enumeration, one call each, in the tray variant). It runs a restore pass exactly
  when \<open>b\<close> is false and the previous sample was true, and then makes the restore
  requests for every secondary display that has a stored mode. The flag always equals the
  previous sample. When \<open>b\<close> equals the previous sample the iteration changes nothing,
  makes no mode-change call and only sleeps. Hence the number of disable passes of a run
  is the number of rising edges of its samples, the number of restore passes the number
  of falling edges, and a run of true samples causes exactly one disable pass.
\<close>

theorem edge_triggered_passes:
  "(case cli_state_after os bs of (l, w) \<Rightarrow>
      (case cli_iteration os b l w of (l', w', es) \<Rightarrow>
         (Print Disabling_secondary \<in> set es \<longleftrightarrow> b \<and> \<not> previous_sample bs)
       \<and> (Print Lol_closed \<in> set es \<longleftrightarrow> \<not> b \<and> previous_sample bs)
       \<and> monitors_disabled l = previous_sample bs \<and> monitors_disabled l' = b
       \<and> (b = previous_sample bs \<longrightarrow> l' = l \<and> w' = w \<and> es = [Sleep 2000])
       \<and> calls es =
           (if b \<and> \<not> previous_sample bs
            then calls (retry_once_policy os (disable_requests (secondary_monitors l)) (cds_calls w))
            else if \<not> b \<and> previous_sample bs
            then calls (retry_once_policy os
                   (restore_requests (monitor_settings w) (secondary_monitors l)) (cds_calls w))
            else [])
       \<and> (b \<and> \<not> previous_sample bs \<longrightarrow>
            set (call_targets es) = name ` set (secondary_monitors l))))
   \<and> (case gui_state_after os bs of (t, w) \<Rightarrow>
      (case gui_iteration os b t w of (t', w', es) \<Rightarrow>
         running t
       \<and> (Emit Process_detected \<in> set es \<longleftrightarrow> b \<and> \<not> previous_sample bs)
       \<and> (Emit Process_closed \<in> set es \<longleftrightarrow> \<not> b \<and> previous_sample bs)
       \<and> thread_monitors_disabled t = previous_sample bs \<and> thread_monitors_disabled t' = b
       \<and> (b = previous_sample bs \<longrightarrow> t' = t \<and> w' = w \<and> es = [Sleep 2000])
       \<and> calls es =
           (if b \<and> \<not> previous_sample bs
            then single_attempt_policy (disable_requests
                   (filter (\<lambda>m. \<not> is_primary m)
                      (get_all_monitors_loop (display_table os (enum_calls w)) 0 [])))
            else if \<not> b \<and> previous_sample bs
            then single_attempt_policy (restore_requests (monitor_settings w)
                   (filter (\<lambda>m. \<not> is_primary m)
                      (get_all_monitors_loop (display_table os (enum_calls w)) 0 [])))
            else [])
       \<and> (b \<and> \<not> previous_sample bs \<longrightarrow>
            set (call_targets es)
              = name ` set (filter (\<lambda>m. \<not> is_primary m)
                             (get_all_monitors_loop (display_table os (enum_calls w)) 0 [])))))
   \<and> count_list (cli_loop_events os bs) (Print Disabling_secondary) = rising_edges False bs
   \<and> count_list (cli_loop_events os bs) (Print Lol_closed) = falling_edges False bs
   \<and> count_list (gui_loop_events os bs) (Emit Process_detected) = rising_edges False bs
   \<and> count_list (gui_loop_events os bs) (Emit Process_closed) = falling_edges False bs
   \<and> count_list (cli_loop_events os (replicate (Suc n) True)) (Print Disabling_secondary) = 1
   \<and> count_list (gui_loop_events os (replicate (Suc n) True)) (Emit Process_detected) = 1"
proof -
  obtain l w where sa: "cli_state_after os bs = (l, w)"
    by (cases "cli_state_after os bs") auto
  obtain l' w' es where it: "cli_iteration os b l w = (l', w', es)"
    by (cases "cli_iteration os b l w") auto
  have fl: "lol_was_running l = previous_sample bs" "monitors_disabled l = previous_sample bs"
    using cli_state_after_flags [of os bs] by (simp_all add: sa)
  have proj: "snd (snd (cli_iteration os b l w)) = es" "fst (cli_iteration os b l w) = l'"
    by (simp_all add: it)
  have cli: "(Print Disabling_secondary \<in> set es \<longleftrightarrow> b \<and> \<not> previous_sample bs)
       \<and> (Print Lol_closed \<in> set es \<longleftrightarrow> \<not> b \<and> previous_sample bs)
       \<and> monitors_disabled l = previous_sample bs \<and> monitors_disabled l' = b
       \<and> (b = previous_sample bs \<longrightarrow> l' = l \<and> w' = w \<and> es = [Sleep 2000])"
  proof -
    have idle: "l' = l \<and> w' = w \<and> es = [Sleep 2000]" if "b = previous_sample bs"
    proof -
      from that fl have "cli_iteration os b l w = (l, w, [Sleep 2000])"
        by (simp add: cli_iteration_idle)
      with it show ?thesis by simp
    qed
    from proj cli_iteration_markers [of os b l w] cli_iteration_flags [of os b l w] fl idle
    show ?thesis by simp
  qed
  have cli_calls: "calls es =
           (if b \<and> \<not> previous_sample bs
            then calls (retry_once_policy os (disable_requests (secondary_monitors l)) (cds_calls w))
            else if \<not> b \<and> previous_sample bs
            then calls (retry_once_policy os
                   (restore_requests (monitor_settings w) (secondary_monitors l)) (cds_calls w))
            else [])"
    using calls_cli_iteration [of os b l w] fl(1) by (simp add: proj calls_def)
  have cli_targets: "set (call_targets es) = name ` set (secondary_monitors l)"
    if "b \<and> \<not> previous_sample bs"
  proof -
    have r: "b \<and> \<not> lol_was_running l" using that fl(1) by simp
    show ?thesis using targets_cli_iteration_rising [OF r, of os w] unfolding proj .
  qed
  obtain t v where sg: "gui_state_after os bs = (t, v)"
    by (cases "gui_state_after os bs") auto
  obtain t' v' fs where ig: "gui_iteration os b t v = (t', v', fs)"
    by (cases "gui_iteration os b t v") auto
  have fg: "process_was_running t = previous_sample bs"
    "thread_monitors_disabled t = previous_sample bs" "running t"
    using gui_state_after_flags [of os bs] by (simp_all add: sg)
  have projg: "snd (snd (gui_iteration os b t v)) = fs" "fst (gui_iteration os b t v) = t'"
    by (simp_all add: ig)
  have gui: "running t
       \<and> (Emit Process_detected \<in> set fs \<longleftrightarrow> b \<and> \<not> previous_sample bs)
       \<and> (Emit Process_closed \<in> set fs \<longleftrightarrow> \<not> b \<and> previous_sample bs)
       \<and> thread_monitors_disabled t = previous_sample bs \<and> thread_monitors_disabled t' = b
       \<and> (b = previous_sample bs \<longrightarrow> t' = t \<and> v' = v \<and> fs = [Sleep 2000])"
  proof -
    have idle: "t' = t \<and> v' = v \<and> fs = [Sleep 2000]" if "b = previous_sample bs"
    proof -
      from that fg have "gui_iteration os b t v = (t, v, [Sleep 2000])"
        by (simp add: gui_iteration_idle)
      with ig show ?thesis by simp
    qed
    from projg gui_iteration_markers [of os b t v] gui_iteration_flags [of os b t v] fg idle
    show ?thesis by simp
  qed
  let ?fresh = "filter (\<lambda>m. \<not> is_primary m)
                  (get_all_monitors_loop (display_table os (enum_calls v)) 0 [])"
  have gui_calls: "calls fs =
           (if b \<and> \<not> previous_sample bs
            then single_attempt_policy (disable_requests ?fresh)
            else if \<not> b \<and> previous_sample bs
            then single_attempt_policy (restore_requests (monitor_settings v) ?fresh)
            else [])"
    using calls_gui_iteration [of os b t v] fg(1) by (simp add: projg)
  have gui_targets: "set (call_targets fs) = name ` set ?fresh"
    if "b \<and> \<not> previous_sample bs"
  proof -
    have r: "b \<and> \<not> process_was_running t" using that fg(1) by simp
    show ?thesis using targets_gui_iteration_rising [OF r, of os v] unfolding projg .
  qed
  have cc: "count_list (cli_loop_events os xs) (Print Disabling_secondary) = rising_edges False xs
      \<and> count_list (cli_loop_events os xs) (Print Lol_closed) = falling_edges False xs" for xs
    using count_cli_loop [of os xs "fst (cli_startup os world_init)"
        "fst (snd (cli_startup os world_init))"] cli_startup_flags [of os world_init]
    by (simp add: cli_loop_events_def split_beta)
  have cg: "count_list (gui_loop_events os xs) (Emit Process_detected) = rising_edges False xs
      \<and> count_list (gui_loop_events os xs) (Emit Process_closed) = falling_edges False xs" for xs
    using count_gui_run [of MonitorThread_init os xs "save_monitor_settings os world_init"]
    by (simp add: gui_loop_events_def split_beta Let_def MonitorThread_init_def)
  have one: "rising_edges False (replicate (Suc n) True) = 1"
    by (simp only: rising_edges_all_true) simp
  have cli_all: "case cli_state_after os bs of (l, w) \<Rightarrow>
      (case cli_iteration os b l w of (l', w', es) \<Rightarrow>
         (Print Disabling_secondary \<in> set es \<longleftrightarrow> b \<and> \<not> previous_sample bs)
       \<and> (Print Lol_closed \<in> set es \<longleftrightarrow> \<not> b \<and> previous_sample bs)
       \<and> monitors_disabled l = previous_sample bs \<and> monitors_disabled l' = b
       \<and> (b = previous_sample bs \<longrightarrow> l' = l \<and> w' = w \<and> es = [Sleep 2000])
       \<and> calls es =
           (if b \<and> \<not> previous_sample bs
            then calls (retry_once_policy os (disable_requests (secondary_monitors l)) (cds_calls w))
            else if \<not> b \<and> previous_sample bs
            then calls (retry_once_policy os
                   (restore_requests (monitor_settings w) (secondary_monitors l)) (cds_calls w))
            else [])
       \<and> (b \<and> \<not> previous_sample bs \<longrightarrow>
            set (call_targets es) = name ` set (secondary_monitors l)))"
    unfolding sa it prod.case using cli cli_calls cli_targets by blast
  have gui_all: "case gui_state_after os bs of (t, w) \<Rightarrow>
      (case gui_iteration os b t w of (t', w', es) \<Rightarrow>
         running t
       \<and> (Emit Process_detected \<in> set es \<longleftrightarrow> b \<and> \<not> previous_sample bs)
       \<and> (Emit Process_closed \<in> set es \<longleftrightarrow> \<not> b \<and> previous_sample bs)
       \<and> thread_monitors_disabled t = previous_sample bs \<and> thread_monitors_disabled t' = b
       \<and> (b = previous_sample bs \<longrightarrow> t' = t \<and> w' = w \<and> es = [Sleep 2000])
       \<and> calls es =
           (if b \<and> \<not> previous_sample bs
            then single_attempt_policy (disable_requests
                   (filter (\<lambda>m. \<not> is_primary m)
                      (get_all_monitors_loop (display_table os (enum_calls w)) 0 [])))
            else if \<not> b \<and> previous_sample bs
            then single_attempt_policy (restore_requests (monitor_settings w)
                   (filter (\<lambda>m. \<not> is_primary m)
                      (get_all_monitors_loop (display_table os (enum_calls w)) 0 [])))
            else [])
       \<and> (b \<and> \<not> previous_sample bs \<longrightarrow>
            set (call_targets es)
              = name ` set (filter (\<lambda>m. \<not> is_primary m)
                             (get_all_monitors_loop (display_table os (enum_calls w)) 0 []))))"
    unfolding sg ig prod.case using gui gui_calls gui_targets by blast
  show ?thesis
    using cli_all gui_all cc [of bs] cg [of bs] cc [of "replicate (Suc n) True"]
      cg [of "replicate (Suc n) True"] one
    by simp
qed

theorem edge_triggered_passes_witness:
  "count_list (cli_loop_events os_steady [True, True, False, False, True]) (Print Disabling_secondary) = 2
   \<and> count_list (gui_loop_events os_steady [True, True, False, False, True]) (Emit Process_closed) = 1
   \<and> monitors_disabled (fst (cli_state_after os_steady [False, True, True]))
   \<and> calls (snd (snd (cli_iteration os_steady True (fst (cli_state_after os_steady [False]))
                         (snd (cli_state_after os_steady [False])))))
       = [ChangeDisplaySettingsEx ''DISPLAY2'' disable_devmode 0]
   \<and> calls (snd (snd (cli_iteration os_steady True (fst (cli_state_after os_steady [False, True]))
                         (snd (cli_state_after os_steady [False, True]))))) = []
   \<and> calls (snd (snd (gui_iteration os_steady False (fst (gui_state_after os_steady [True]))
                         (snd (gui_state_after os_steady [True])))))
       = [ChangeDisplaySettingsEx ''DISPLAY2'' mode_desk 0]"
proof -
  have c1: "count_list (cli_loop_events os_steady [True, True, False, False, True]) (Print Disabling_secondary) = 2
   \<and> count_list (gui_loop_events os_steady [True, True, False, False, True]) (Emit Process_closed) = 1"
    using edge_triggered_passes [where os = os_steady and bs = "[True, True, False, False, True]" and b = True and n = 0]
    by (simp add: split_beta)
  have c2: "monitors_disabled (fst (cli_state_after os_steady [False, True, True]))"
    using edge_triggered_passes [where os = os_steady and bs = "[False, True, True]" and b = True and n = 0]
    by (simp add: split_beta previous_sample_def)
  have ok: "cds_result os_steady k nm dm fl = 0" for k nm dm fl
    by (simp add: os_steady_def)
  have tbl: "get_all_monitors_loop (display_table os_steady k) 0 [] = [monitor1, monitor2]" for k
    by (simp add: fixture_defs)
  have nm: "name monitor2 = ''DISPLAY2''" "is_primary monitor1" "\<not> is_primary monitor2"
    by (simp_all add: monitor1_def monitor2_def)
  have s1: "secondary_monitors (fst (cli_state_after os_steady [False])) = [monitor2]"
    by (simp add: run_defs fixture_defs)
  have c3: "calls (snd (snd (cli_iteration os_steady True (fst (cli_state_after os_steady [False]))
                         (snd (cli_state_after os_steady [False])))))
       = [ChangeDisplaySettingsEx ''DISPLAY2'' disable_devmode 0]"
    using edge_triggered_passes [where os = os_steady and bs = "[False]" and b = True and n = 0]
    by (simp add: split_beta previous_sample_def s1 disable_requests_def nm ok
        DISP_CHANGE_SUCCESSFUL_def calls_simps)
  have c4: "calls (snd (snd (cli_iteration os_steady True (fst (cli_state_after os_steady [False, True]))
                         (snd (cli_state_after os_steady [False, True]))))) = []"
    using edge_triggered_passes [where os = os_steady and bs = "[False, True]" and b = True and n = 0]
    by (simp add: split_beta previous_sample_def calls_simps)
  have s2: "map_of (monitor_settings (snd (gui_state_after os_steady [True]))) ''DISPLAY2'' = Some mode_desk"
    by (simp add: run_defs fixture_defs)
  have c5: "calls (snd (snd (gui_iteration os_steady False (fst (gui_state_after os_steady [True]))
                         (snd (gui_state_after os_steady [True])))))
       = [ChangeDisplaySettingsEx ''DISPLAY2'' mode_desk 0]"
    using edge_triggered_passes [where os = os_steady and bs = "[True]" and b = False and n = 0]
    by (simp add: split_beta previous_sample_def s2 tbl nm restore_requests_Cons
        restore_requests_Nil single_attempt_policy_def)
  show ?thesis using c1 c2 c3 c4 c5 by simp
qed

text \<open>
  Claim C6, as amended. At a controlled shutdown while the "disabled" flag is set (which
  is exactly when the last presence sample was true), the console variant makes one
  restore call, with the stored mode and without retry, for every display of its list of
  secondary displays that has a snapshot entry, and the tray variant does so for every
  secondary display of a fresh enumeration that has a snapshot entry; a secondary display
  without a snapshot entry is passed over. A shutdown with the flag cleared makes no
  mode-change call.
\<close>

theorem shutdown_restores_saved_displays:
  "calls (snd (cli_interrupt os l w))
     = (if monitors_disabled l
        then single_attempt_policy (restore_requests (monitor_settings w) (secondary_monitors l))
        else [])
   \<and> calls (snd (snd (gui_stop os t w)))
     = (if thread_monitors_disabled t
        then single_attempt_policy (restore_requests (monitor_settings w)
               (filter (\<lambda>m. \<not> is_primary m)
                  (get_all_monitors_loop (display_table os (enum_calls w)) 0 [])))
        else [])
   \<and> (monitors_disabled l \<and> m \<in> set (secondary_monitors l)
        \<and> map_of (monitor_settings w) (name m) = Some saved
      \<longrightarrow> ChangeDisplaySettingsEx (name m) saved 0 \<in> set (snd (cli_interrupt os l w)))
   \<and> (thread_monitors_disabled t
        \<and> m \<in> set (filter (\<lambda>m. \<not> is_primary m)
                      (get_all_monitors_loop (display_table os (enum_calls w)) 0 []))
        \<and> map_of (monitor_settings w) (name m) = Some saved
      \<longrightarrow> ChangeDisplaySettingsEx (name m) saved 0 \<in> set (snd (snd (gui_stop os t w))))
   \<and> monitors_disabled (fst (cli_state_after os bs)) = previous_sample bs
   \<and> thread_monitors_disabled (fst (gui_state_after os bs)) = previous_sample bs"
proof -
  let ?fresh = "filter (\<lambda>m. \<not> is_primary m)
                  (get_all_monitors_loop (display_table os (enum_calls w)) 0 [])"
  have in_calls: "e \<in> set (calls es) \<Longrightarrow> e \<in> set es" for e :: event and es
    by (simp add: calls_def)
  have c: "ChangeDisplaySettingsEx (name m) saved 0 \<in> set (snd (cli_interrupt os l w))"
    if "monitors_disabled l" "m \<in> set (secondary_monitors l)"
      "map_of (monitor_settings w) (name m) = Some saved"
  proof -
    have "ChangeDisplaySettingsEx (name m) saved 0 \<in> set (calls (snd (cli_interrupt os l w)))"
      using request_in_restore_requests [OF that(2,3)] that(1)
      by (simp add: calls_cli_interrupt)
    then show ?thesis by (rule in_calls)
  qed
  have g: "ChangeDisplaySettingsEx (name m) saved 0 \<in> set (snd (snd (gui_stop os t w)))"
    if "thread_monitors_disabled t" "m \<in> set ?fresh"
      "map_of (monitor_settings w) (name m) = Some saved"
  proof -
    have "ChangeDisplaySettingsEx (name m) saved 0 \<in> set (calls (snd (snd (gui_stop os t w))))"
      using request_in_restore_requests [OF that(2,3)] that(1)
      by (simp add: calls_gui_stop)
    then show ?thesis by (rule in_calls)
  qed
  show ?thesis
    using c g cli_state_after_flags [of os bs] gui_state_after_flags [of os bs]
      calls_cli_interrupt [of os l w] calls_gui_stop [of os t w]
    by blast
qed

theorem shutdown_restores_saved_displays_witness:
  "calls (snd (cli_interrupt os_steady (fst (cli_state_after os_steady [True]))
                 (snd (cli_state_after os_steady [True]))))
     = [ChangeDisplaySettingsEx ''DISPLAY2'' mode_desk 0]
   \<and> calls (snd (cli_interrupt os_steady (fst (cli_state_after os_steady [True, False]))
                 (snd (cli_state_after os_steady [True, False])))) = []"
proof -
  have s1: "monitors_disabled (fst (cli_state_after os_steady [True]))"
    "secondary_monitors (fst (cli_state_after os_steady [True])) = [monitor2]"
    "map_of (monitor_settings (snd (cli_state_after os_steady [True]))) ''DISPLAY2'' = Some mode_desk"
    by (simp_all add: run_defs fixture_defs)
  have s2: "\<not> monitors_disabled (fst (cli_state_after os_steady [True, False]))"
    by (simp add: run_defs fixture_defs)
  have n2: "name monitor2 = ''DISPLAY2''" by (simp add: monitor2_def)
  show ?thesis
    using shutdown_restores_saved_displays [where os = os_steady
        and l = "fst (cli_state_after os_steady [True])"
        and w = "snd (cli_state_after os_steady [True])", THEN conjunct1]
      shutdown_restores_saved_displays [where os = os_steady
        and l = "fst (cli_state_after os_steady [True, False])"
        and w = "snd (cli_state_after os_steady [True, False])", THEN conjunct1]
    by (simp add: s1 s2 n2 restore_requests_Cons restore_requests_Nil single_attempt_policy_def)
qed

text \<open>
  The claim as stated fails: in the console variant, a secondary display that appeared
  between the two enumerations of startup is disabled on the rising edge, and at exit the
  handler announces the restore and makes no call for it. Likewise in the tray variant: a
  secondary display attached after startup is listed by the enumeration of \<^verbatim>\<open>stop\<close>, and
  \<^verbatim>\<open>stop\<close> makes no call for it.
\<close>

theorem shutdown_skips_unsaved_counterexample:
  "monitors_disabled (fst (cli_state_after os_hotplug [True]))
   \<and> secondary_monitors (fst (cli_state_after os_hotplug [True])) = [monitor2]
   \<and> monitor_settings (snd (cli_state_after os_hotplug [True])) = [(''DISPLAY1'', mode_panel)]
   \<and> snd (cli_interrupt os_hotplug (fst (cli_state_after os_hotplug [True]))
             (snd (cli_state_after os_hotplug [True])))
       = [Print Exiting, Print Reenabling_before_exit, Print Goodbye]
   \<and> thread_monitors_disabled (fst (gui_state_after os_hotplug [True]))
   \<and> filter (\<lambda>m. \<not> is_primary m) (get_all_monitors_loop (display_table os_hotplug 2) 0 [])
       = [monitor2]
   \<and> enum_calls (snd (gui_state_after os_hotplug [True])) = 2
   \<and> snd (snd (gui_stop os_hotplug (fst (gui_state_after os_hotplug [True]))
                  (snd (gui_state_after os_hotplug [True])))) = []"
  by (simp add: run_defs fixture_defs)

text \<open>
  Claim C8, as amended. On a rising edge the tray variant enumerates the displays at that
  moment (one more enumeration is made) and calls disable once for each non-primary
  display of that enumeration. The console variant makes no enumeration in its loop: it
  disables, with its retry, the displays of the list of secondary displays that it
  computed once at startup, from the second enumeration of the run.
\<close>

theorem rising_edge_enumeration:
  "(b \<and> \<not> process_was_running t \<longrightarrow>
      enum_calls (fst (snd (gui_iteration os b t w))) = enum_calls w + 1
    \<and> calls (snd (snd (gui_iteration os b t w)))
        = single_attempt_policy (disable_requests
            (filter (\<lambda>m. \<not> is_primary m)
               (get_all_monitors_loop (display_table os (enum_calls w)) 0 []))))
   \<and> (b \<and> \<not> lol_was_running l \<longrightarrow>
      enum_calls (fst (snd (cli_iteration os b l w))) = enum_calls w
    \<and> calls (snd (snd (cli_iteration os b l w)))
        = calls (retry_once_policy os (disable_requests (secondary_monitors l)) (cds_calls w)))
   \<and> secondary_monitors (fst (cli_state_after os bs))
       = filter (\<lambda>m. \<not> is_primary m) (get_all_monitors_loop (display_table os 1) 0 [])
   \<and> enum_calls (snd (cli_state_after os bs)) = 2"
  using cli_state_after_snapshot [of os bs, THEN conjunct2, THEN conjunct2]
  by (simp add: enum_calls_gui_rising calls_gui_iteration enum_calls_cli_iteration
      calls_cli_iteration cli_state_after_enum_calls) (simp add: calls_def)

theorem rising_edge_enumeration_witness:
  "enum_calls (save_monitor_settings os_steady world_init) = 1
   \<and> enum_calls (fst (snd (gui_iteration os_steady True MonitorThread_init
        (save_monitor_settings os_steady world_init)))) = 2
   \<and> calls (snd (snd (gui_iteration os_steady True MonitorThread_init
        (save_monitor_settings os_steady world_init))))
       = [ChangeDisplaySettingsEx ''DISPLAY2'' disable_devmode 0]"
proof -
  have h: "True \<and> \<not> process_was_running MonitorThread_init"
    by (simp add: MonitorThread_init_def)
  have e: "enum_calls (save_monitor_settings os_steady world_init) = 1"
    by (simp add: save_monitor_settings_def get_all_monitors_eq world_init_def split_beta)
  show ?thesis
    using rising_edge_enumeration [where os = os_steady and b = True and t = MonitorThread_init
        and w = "save_monitor_settings os_steady world_init", THEN conjunct1] h e
    by (simp add: fixture_defs disable_requests_def single_attempt_policy_def)
qed

text \<open>
  The claim as stated fails in the console variant: when the second display is detached
  after startup, the rising edge still disables it, from the list computed at startup, and
  no enumeration is made (a fresh one would have listed no secondary display).
\<close>

theorem console_stale_list_counterexample:
  "enum_calls (snd (cli_state_after os_unplug [])) = 2
   \<and> enum_calls (snd (cli_state_after os_unplug [True])) = 2
   \<and> calls (cli_loop_events os_unplug [True])
       = [ChangeDisplaySettingsEx ''DISPLAY2'' disable_devmode 0]
   \<and> filter (\<lambda>m. \<not> is_primary m) (get_all_monitors_loop (display_table os_unplug 2) 0 []) = []"
  by (simp add: run_defs fixture_defs)

section \<open>The two variants compared\<close>

lemma calls_cli_list_monitors:
  "calls (snd (snd (cli_list_monitors i mons pm sm))) = []"
  by (induction mons arbitrary: i pm sm) (simp_all add: split_beta calls_simps)

lemma calls_cli_startup: "calls (snd (snd (cli_startup os w))) = []"
  by (simp add: cli_startup_def cli_save_monitor_settings_def split_beta Let_def
      calls_append calls_simps calls_cli_list_monitors)

lemma retry_once_all_success:
  "(\<And>k nm dm. cds_result os k nm dm 0 = DISP_CHANGE_SUCCESSFUL)
     \<Longrightarrow> retry_once_policy os requests k = single_attempt_policy requests"
proof (induction requests arbitrary: k)
  case Nil
  show ?case by (simp add: single_attempt_policy_def)
next
  case (Cons r requests)
  obtain nm dm where r: "r = (nm, dm)" by (cases r)
  show ?case
    using Cons.IH [of "k + 1", OF Cons.prems] Cons.prems [of k nm dm]
    by (simp add: r single_attempt_policy_def)
qed

lemma lockstep_loops:
  assumes ok: "\<And>k nm dm. cds_result os k nm dm 0 = DISP_CHANGE_SUCCESSFUL"
      and tbl: "\<And>k. display_table os k = T"
  shows "lol_was_running l = process_was_running t \<Longrightarrow> running t
     \<Longrightarrow> monitor_settings w = monitor_settings v
     \<Longrightarrow> secondary_monitors l = filter (\<lambda>m. \<not> is_primary m) (get_all_monitors_loop T 0 [])
     \<Longrightarrow> calls (snd (snd (cli_loop os bs l w))) = calls (snd (snd (gui_run os bs t v)))
         \<and> monitor_settings (fst (snd (cli_loop os bs l w)))
             = monitor_settings (fst (snd (gui_run os bs t v)))"
proof (induction bs arbitrary: l t w v)
  case Nil
  then show ?case by simp
next
  case (Cons b bs)
  obtain l1 w1 e1 where ci: "cli_iteration os b l w = (l1, w1, e1)"
    by (cases "cli_iteration os b l w") auto
  obtain t1 v1 f1 where gi: "gui_iteration os b t v = (t1, v1, f1)"
    by (cases "gui_iteration os b t v") auto
  have flags: "lol_was_running l1 = process_was_running t1" "running t1"
    "secondary_monitors l1 = filter (\<lambda>m. \<not> is_primary m) (get_all_monitors_loop T 0 [])"
    using cli_iteration_flags [of os b l w] gui_iteration_flags [of os b t v] Cons.prems
    by (simp_all add: ci gi)
  have sets: "monitor_settings w1 = monitor_settings v1"
    using settings_cli_iteration [of os b l w] settings_gui_iteration [of os b t v] Cons.prems(3)
    by (simp add: ci gi)
  have "calls (snd (snd (cli_iteration os b l w))) = calls (snd (snd (gui_iteration os b t v)))"
    using Cons.prems
    by (simp add: calls_cli_iteration calls_gui_iteration retry_once_all_success [OF ok]
        calls_single_attempt tbl)
  then have e: "calls e1 = calls f1" by (simp add: ci gi)
  show ?case
    using Cons.IH [OF flags(1,2) sets flags(3)] e Cons.prems(2)
    by (simp add: ci gi calls_append split_beta)
qed

text \<open>
  Claim C9, as amended. Suppose that every enumeration of the run sees the same display
  table and that every mode-change call returns success. Then, given the same presence
  samples, each iteration of the console loop makes the same mode-change calls (same
  displays, same modes, same flags) as the iteration of the tray loop: on a rising edge
  one disable call for every secondary display, on a falling edge one restore call for
  every secondary display that has a stored mode, otherwise none; so the two loops make
  the same calls over any number of completed iterations. A shutdown that arrives between
  two iterations makes the same restore calls in both variants, and so do the two whole
  runs that end with such a shutdown. Nothing is said of a shutdown that arrives inside an
  iteration, nor of runs in which a call fails or the display table changes: there the
  console variant retries and works from its startup list, and the tray variant does
  neither.
\<close>

theorem variants_agree_when_calls_succeed:
  "(\<forall>k. display_table os k = display_table os 0)
     \<and> (\<forall>k nm dm. cds_result os k nm dm 0 = DISP_CHANGE_SUCCESSFUL)
   \<longrightarrow> (case cli_state_after os bs of (l, w) \<Rightarrow>
          (case gui_state_after os bs of (t, v) \<Rightarrow>
             calls (snd (snd (cli_iteration os b l w))) = calls (snd (snd (gui_iteration os b t v)))
           \<and> calls (snd (snd (gui_iteration os b t v)))
               = (if b \<and> \<not> previous_sample bs
                  then single_attempt_policy (disable_requests
                         (filter (\<lambda>m. \<not> is_primary m)
                            (get_all_monitors_loop (display_table os 0) 0 [])))
                  else if \<not> b \<and> previous_sample bs
                  then single_attempt_policy (restore_requests
                         (store_settings (get_all_monitors_loop (display_table os 0) 0 []) [])
                         (filter (\<lambda>m. \<not> is_primary m)
                            (get_all_monitors_loop (display_table os 0) 0 [])))
                  else [])
           \<and> calls (snd (cli_interrupt os l w)) = calls (snd (snd (gui_stop os t v)))
           \<and> calls (snd (snd (gui_stop os t v)))
               = (if previous_sample bs
                  then single_attempt_policy (restore_requests
                         (store_settings (get_all_monitors_loop (display_table os 0) 0 []) [])
                         (filter (\<lambda>m. \<not> is_primary m)
                            (get_all_monitors_loop (display_table os 0) 0 [])))
                  else [])))
       \<and> calls (cli_loop_events os bs) = calls (gui_loop_events os bs)
       \<and> calls (snd (snd (cli_main os bs))) = calls (snd (snd (gui_app os bs)))"
proof
  assume h: "(\<forall>k. display_table os k = display_table os 0)
     \<and> (\<forall>k nm dm. cds_result os k nm dm 0 = DISP_CHANGE_SUCCESSFUL)"
  define T where "T = display_table os 0"
  have tbl: "display_table os k = T" for k using h by (simp add: T_def)
  have ok: "cds_result os k nm dm 0 = DISP_CHANGE_SUCCESSFUL" for k nm dm using h by simp
  let ?l0 = "fst (cli_startup os world_init)" and ?w0 = "fst (snd (cli_startup os world_init))"
  let ?v0 = "save_monitor_settings os world_init"
  define sec where "sec = filter (\<lambda>m. \<not> is_primary m) (get_all_monitors_loop T 0 [])"
  define ms where "ms = store_settings (get_all_monitors_loop T 0 []) []"
  obtain l w where sa: "cli_state_after os bs = (l, w)"
    by (cases "cli_state_after os bs") auto
  obtain t v where sg: "gui_state_after os bs = (t, v)"
    by (cases "gui_state_after os bs") auto
  have l0: "lol_was_running ?l0 = process_was_running MonitorThread_init"
    using cli_startup_flags [of os world_init] by (simp add: MonitorThread_init_def)
  have r0: "running MonitorThread_init" by (simp add: MonitorThread_init_def)
  have s0: "monitor_settings ?w0 = monitor_settings ?v0"
    by (simp add: settings_cli_startup save_monitor_settings_def get_all_monitors_eq split_beta)
  have sec0: "secondary_monitors ?l0 = filter (\<lambda>m. \<not> is_primary m) (get_all_monitors_loop T 0 [])"
    using cli_startup_state [of os world_init] by (simp add: tbl)
  note loop = lockstep_loops [of os T ?l0 MonitorThread_init ?w0 ?v0 bs, OF ok tbl l0 r0 s0 sec0]
  have loop_calls: "calls (cli_loop_events os bs) = calls (gui_loop_events os bs)"
    using loop by (simp add: cli_loop_events_eq gui_loop_events_eq)
  have cs: "monitor_settings w = ms" "secondary_monitors l = sec"
    using cli_state_after_snapshot [of os bs] by (simp_all add: sa tbl ms_def sec_def)
  have gs: "monitor_settings v = ms"
    using gui_state_after_snapshot [of os bs] by (simp add: sg tbl ms_def)
  have cf: "lol_was_running l = previous_sample bs" "monitors_disabled l = previous_sample bs"
    using cli_state_after_flags [of os bs] by (simp_all add: sa)
  have gf: "process_was_running t = previous_sample bs"
    "thread_monitors_disabled t = previous_sample bs"
    using gui_state_after_flags [of os bs] by (simp_all add: sg)
  have gui_it: "calls (snd (snd (gui_iteration os b t v)))
      = (if b \<and> \<not> previous_sample bs then single_attempt_policy (disable_requests sec)
         else if \<not> b \<and> previous_sample bs then single_attempt_policy (restore_requests ms sec)
         else [])"
    by (simp add: calls_gui_iteration gf gs tbl sec_def)
  have cli_it: "calls (snd (snd (cli_iteration os b l w)))
      = (if b \<and> \<not> previous_sample bs then single_attempt_policy (disable_requests sec)
         else if \<not> b \<and> previous_sample bs then single_attempt_policy (restore_requests ms sec)
         else [])"
    by (simp add: calls_cli_iteration cf cs retry_once_all_success [OF ok] calls_single_attempt)
  have gui_st: "calls (snd (snd (gui_stop os t v)))
      = (if previous_sample bs then single_attempt_policy (restore_requests ms sec) else [])"
    by (simp add: calls_gui_stop gf gs tbl sec_def)
  have cli_st: "calls (snd (cli_interrupt os l w))
      = (if previous_sample bs then single_attempt_policy (restore_requests ms sec) else [])"
    by (simp add: calls_cli_interrupt cf cs)
  have start_calls: "calls (snd (snd (cli_startup os world_init))) = []"
    by (rule calls_cli_startup)
  have fsa: "fst (cli_state_after os bs) = l" "snd (cli_state_after os bs) = w"
    "fst (gui_state_after os bs) = t" "snd (gui_state_after os bs) = v"
    by (simp_all add: sa sg)
  have whole: "calls (snd (snd (cli_main os bs))) = calls (snd (snd (gui_app os bs)))"
    by (simp add: cli_main_eq gui_app_eq calls_append loop_calls start_calls fsa cli_st gui_st)
  have T0: "display_table os 0 = T" by (simp add: T_def)
  show "(case cli_state_after os bs of (l, w) \<Rightarrow>
          (case gui_state_after os bs of (t, v) \<Rightarrow>
             calls (snd (snd (cli_iteration os b l w))) = calls (snd (snd (gui_iteration os b t v)))
           \<and> calls (snd (snd (gui_iteration os b t v)))
               = (if b \<and> \<not> previous_sample bs
                  then single_attempt_policy (disable_requests
                         (filter (\<lambda>m. \<not> is_primary m)
                            (get_all_monitors_loop (display_table os 0) 0 [])))
                  else if \<not> b \<and> previous_sample bs
                  then single_attempt_policy (restore_requests
                         (store_settings (get_all_monitors_loop (display_table os 0) 0 []) [])
                         (filter (\<lambda>m. \<not> is_primary m)
                            (get_all_monitors_loop (display_table os 0) 0 [])))
                  else [])
           \<and> calls (snd (cli_interrupt os l w)) = calls (snd (snd (gui_stop os t v)))
           \<and> calls (snd (snd (gui_stop os t v)))
               = (if previous_sample bs
                  then single_attempt_policy (restore_requests
                         (store_settings (get_all_monitors_loop (display_table os 0) 0 []) [])
                         (filter (\<lambda>m. \<not> is_primary m)
                            (get_all_monitors_loop (display_table os 0) 0 [])))
                  else [])))
       \<and> calls (cli_loop_events os bs) = calls (gui_loop_events os bs)
       \<and> calls (snd (snd (cli_main os bs))) = calls (snd (snd (gui_app os bs)))"
    unfolding sa sg prod.case T0
    using cli_it gui_it cli_st gui_st loop_calls whole
    by (simp add: sec_def ms_def)
qed

theorem variants_agree_when_calls_succeed_witness:
  "(\<forall>k. display_table os_steady k = display_table os_steady 0)
   \<and> (\<forall>k nm dm. cds_result os_steady k nm dm 0 = DISP_CHANGE_SUCCESSFUL)
   \<and> calls (cli_loop_events os_steady [True, False, True])
       = calls (gui_loop_events os_steady [True, False, True])
   \<and> calls (gui_loop_events os_steady [True, False, True])
       = [ChangeDisplaySettingsEx ''DISPLAY2'' disable_devmode 0,
          ChangeDisplaySettingsEx ''DISPLAY2'' mode_desk 0,
          ChangeDisplaySettingsEx ''DISPLAY2'' disable_devmode 0]
   \<and> calls (snd (snd (cli_main os_steady [True, False, True])))
       = calls (snd (snd (gui_app os_steady [True, False, True])))
   \<and> calls (snd (snd (gui_app os_steady [True, False, True])))
       = [ChangeDisplaySettingsEx ''DISPLAY2'' disable_devmode 0,
          ChangeDisplaySettingsEx ''DISPLAY2'' mode_desk 0,
          ChangeDisplaySettingsEx ''DISPLAY2'' disable_devmode 0,
          ChangeDisplaySettingsEx ''DISPLAY2'' mode_desk 0]"
proof -
  have h: "(\<forall>k. display_table os_steady k = display_table os_steady 0)
     \<and> (\<forall>k nm dm. cds_result os_steady k nm dm 0 = DISP_CHANGE_SUCCESSFUL)"
    by (simp add: os_steady_def DISP_CHANGE_SUCCESSFUL_def)
  have g: "calls (snd (snd (gui_app os_steady [True, False, True])))
       = [ChangeDisplaySettingsEx ''DISPLAY2'' disable_devmode 0,
          ChangeDisplaySettingsEx ''DISPLAY2'' mode_desk 0,
          ChangeDisplaySettingsEx ''DISPLAY2'' disable_devmode 0,
          ChangeDisplaySettingsEx ''DISPLAY2'' mode_desk 0]"
    by (simp add: run_defs fixture_defs)
  have gl: "calls (gui_loop_events os_steady [True, False, True])
       = [ChangeDisplaySettingsEx ''DISPLAY2'' disable_devmode 0,
          ChangeDisplaySettingsEx ''DISPLAY2'' mode_desk 0,
          ChangeDisplaySettingsEx ''DISPLAY2'' disable_devmode 0]"
    by (simp add: run_defs fixture_defs)
  from variants_agree_when_calls_succeed [where os = os_steady and bs = "[True, False, True]"
      and b = True, rule_format, OF h]
  have "calls (cli_loop_events os_steady [True, False, True])
       = calls (gui_loop_events os_steady [True, False, True])
     \<and> calls (snd (snd (cli_main os_steady [True, False, True])))
       = calls (snd (snd (gui_app os_steady [True, False, True])))"
    by simp
  then show ?thesis using h g gl by simp
qed

text \<open>
  The claim as stated fails: with the same samples and the same OS answers, the first
  mode-change call failing, the console loop calls disable twice and the tray loop once
  (in the loops alone, and in the whole runs).
\<close>

theorem variants_differ_on_failure_counterexample:
  "calls (snd (snd (cli_main os_fail_first [True])))
     = [ChangeDisplaySettingsEx ''DISPLAY2'' disable_devmode 0,
        ChangeDisplaySettingsEx ''DISPLAY2'' disable_devmode 0,
        ChangeDisplaySettingsEx ''DISPLAY2'' mode_desk 0]
   \<and> calls (snd (snd (gui_app os_fail_first [True])))
     = [ChangeDisplaySettingsEx ''DISPLAY2'' disable_devmode 0,
        ChangeDisplaySettingsEx ''DISPLAY2'' mode_desk 0]
   \<and> calls (snd (snd (cli_main os_fail_first [True])))
     \<noteq> calls (snd (snd (gui_app os_fail_first [True])))
   \<and> calls (cli_loop_events os_fail_first [True])
     = [ChangeDisplaySettingsEx ''DISPLAY2'' disable_devmode 0,
        ChangeDisplaySettingsEx ''DISPLAY2'' disable_devmode 0]
   \<and> calls (gui_loop_events os_fail_first [True])
     = [ChangeDisplaySettingsEx ''DISPLAY2'' disable_devmode 0]"
  by (simp add: run_defs fixture_defs)

end
